theory Spec2Isabelle
  imports Complex_Main
begin

unbundle bit_operations_syntax

section \<open>Values shared by all blocks\<close>

text \<open>
  \<open>PaError\<close> is PortAudio's \<open>int\<close> error code. The three codes the blocks compare
  against carry the values of \<open>portaudio.h\<close>.
\<close>

type_synonym PaError = int

definition paNoError :: PaError where
  "paNoError = 0"

definition paInputOverflowed :: PaError where
  "paInputOverflowed = - 9981"

definition paOutputUnderflowed :: PaError where
  "paOutputUnderflowed = - 9980"

text \<open>
  Conversion of an integer value to C++ \<open>int\<close> (32 bits, two's complement): a value in
  range is kept, any other wraps modulo \<open>2 ^ 32\<close>. The sources convert the
  \<open>signed long\<close> of \<open>Pa_GetStreamWriteAvailable\<close> and the \<open>size_t\<close> of
  \<open>workInfo().minInElements\<close> this way (\<open>int numFrames = ...\<close>, \<open>std::min<int>\<close>).
\<close>

definition int32 :: "int \<Rightarrow> int" where
  "int32 x = (x + 2147483648) mod 4294967296 - 2147483648"

text \<open>
  The tick count of \<open>std::chrono::high_resolution_clock\<close> (its \<open>duration\<close> and
  \<open>time_point\<close>) is a 64-bit two's-complement integer: a sum or a product that leaves
  its range wraps modulo \<open>2 ^ 64\<close>.
\<close>

definition int64 :: "int \<Rightarrow> int" where
  "int64 x = (x + 9223372036854775808) mod 18446744073709551616 - 9223372036854775808"

text \<open>
  Exceptions. \<open>PaException src call err\<close> stands for
  \<open>Pothos::Exception(src, call + ": " + Pa_GetErrorText(err))\<close>; \<open>StdOutOfRange\<close> is the
  \<open>std::out_of_range\<close> of \<open>std::stoi\<close>; \<open>NullPointer\<close> is the dereference of a null
  \<open>Pa_GetDeviceInfo\<close> result.
\<close>

datatype error =
    Exception string string
  | PaException string string PaError
  | RangeException string string
  | NotFoundException string string
  | InvalidArgumentException string string
  | StdOutOfRange string
  | NullPointer

record PaStreamParameters =
  device :: int
  channelCount :: int
  sampleFormat :: nat
  suggestedLatency :: real

text \<open>
  The members of \<open>AudioBlock\<close> (AudioBlock.hpp). The standalone \<open>AudioSource\<close> and
  \<open>AudioSink\<close> classes hold the same members under the names
  \<open>_reportOverflowLogger\<close>/\<open>_reportUnderflowLogger\<close> (\<open>reportLogger\<close>),
  \<open>_reportOverflowStderror\<close>/\<open>_reportUnderflowStderror\<close> (\<open>reportStderror\<close>) and
  \<open>_overflowBackoff\<close>/\<open>_underflowBackoff\<close> (\<open>backoffTime\<close>). \<open>stream\<close> says whether
  \<open>_stream\<close> is non-null; \<open>ports\<close> are the indexes of the ports the subclass
  constructor set up. Times are ticks of \<open>std::chrono::high_resolution_clock\<close>, within
  its 64-bit range.
\<close>

record AudioBlock =
  blockName :: string
  isSink :: bool
  stream :: bool
  streamParams :: PaStreamParameters
  interleaved :: bool
  sendLabel :: bool
  reportLogger :: bool
  reportStderror :: bool
  backoffTime :: int
  readyTime :: int
  ports :: "nat list"

text \<open>
  A method either returns (\<open>Inr\<close>) or throws (\<open>Inl\<close>); a thrown exception comes with
  the object as the method left it.
\<close>

type_synonym 'a outcome = "(error \<times> AudioBlock) + 'a"

section \<open>Runtime setters\<close>

text \<open>
  \<open>AudioBlock::setReportMode\<close> (AudioBlock.cpp and its older copy),
  \<open>AudioSource::setReportOverflow\<close> and \<open>AudioSink::setReportUnderflow\<close> differ in the
  exception's two strings only.
\<close>

definition setReportModeBody :: "string \<Rightarrow> string \<Rightarrow> string \<Rightarrow> AudioBlock \<Rightarrow> AudioBlock outcome" where
  "setReportModeBody method what mode st =
     (if mode = ''LOGGER'' \<or> mode = ''STDERROR'' \<or> mode = ''DISABLED''
      then Inr (st\<lparr>reportLogger := (mode = ''LOGGER''), reportStderror := (mode = ''STDERROR'')\<rparr>)
      else Inl (InvalidArgumentException (method @ ''('' @ mode @ '')'') what, st))"

definition AudioBlock_setReportMode :: "string \<Rightarrow> AudioBlock \<Rightarrow> AudioBlock outcome" where
  "AudioBlock_setReportMode = setReportModeBody ''AudioBlock::setReportMode'' ''unknown report mode''"

definition AudioSource_setReportOverflow :: "string \<Rightarrow> AudioBlock \<Rightarrow> AudioBlock outcome" where
  "AudioSource_setReportOverflow =
     setReportModeBody ''AudioSource::setReportOverflow'' ''unknown overflow report mode''"

definition AudioSink_setReportUnderflow :: "string \<Rightarrow> AudioBlock \<Rightarrow> AudioBlock outcome" where
  "AudioSink_setReportUnderflow =
     setReportModeBody ''AudioSink::setReportUnderflow'' ''unknown underflow report mode''"

text \<open>
  \<open>setBackoffTime\<close>, \<open>setOverflowBackoff\<close> and \<open>setUnderflowBackoff\<close> have one body:
  \<open>duration_cast<high_resolution_clock::duration>(milliseconds(backoff))\<close>. The clock's
  period belongs to the C++ library: \<open>ticksPerMs\<close> is the number of its ticks in a
  millisecond (1000000 for a nanosecond clock). The cast multiplies in the 64-bit tick
  count, so the product wraps when \<open>backoff\<close> milliseconds are more ticks than it holds.
\<close>

definition setBackoffTime :: "int \<Rightarrow> int \<Rightarrow> AudioBlock \<Rightarrow> AudioBlock outcome" where
  "setBackoffTime ticksPerMs backoff st = Inr (st\<lparr>backoffTime := int64 (backoff * ticksPerMs)\<rparr>)"

section \<open>Activation\<close>

text \<open>
  \<open>activate\<close> (of \<open>AudioBlock\<close> and of the standalone source; \<open>who\<close> is the
  exception's source string) reads the clock, starts the stream and arms the label;
  \<open>deactivate\<close> stops the stream. \<open>started\<close> and \<open>stopped\<close> are the results of
  \<open>Pa_StartStream\<close> and \<open>Pa_StopStream\<close>.
\<close>

definition activate :: "string \<Rightarrow> int \<Rightarrow> PaError \<Rightarrow> AudioBlock \<Rightarrow> AudioBlock outcome" where
  "activate who clock started st =
     (let st1 = st\<lparr>readyTime := clock\<rparr>
      in if started \<noteq> paNoError then Inl (PaException who ''Pa_StartStream'' started, st1)
         else Inr (st1\<lparr>sendLabel := True\<rparr>))"

text \<open>\<open>AudioSink::activate\<close> of the standalone sink, which has no label.\<close>

definition AudioSink_activate :: "int \<Rightarrow> PaError \<Rightarrow> AudioBlock \<Rightarrow> AudioBlock outcome" where
  "AudioSink_activate clock started st =
     (let st1 = st\<lparr>readyTime := clock\<rparr>
      in if started \<noteq> paNoError then Inl (PaException ''AudioSink.activate()'' ''Pa_StartStream'' started, st1)
         else Inr st1)"


section \<open>Work loops\<close>

text \<open>
  What one \<open>work()\<close> call reads from the framework (\<open>WorkInfo\<close>) and from the native
  library and the clock (\<open>Native\<close>: the answers of \<open>Pa_GetStreamWriteAvailable\<close> or
  \<open>Pa_GetStreamReadAvailable\<close>, of \<open>Pa_WriteStream\<close> or \<open>Pa_ReadStream\<close>, of
  \<open>Pa_GetStreamInfo()->sampleRate\<close> and of \<open>high_resolution_clock::now()\<close>), and what it
  does, in order (\<open>effect\<close>).
\<close>

record WorkInfo =
  minInElements :: nat
  minOutElements :: nat
  maxTimeoutNs :: nat

record Native =
  streamAvailable :: int
  ioResult :: PaError
  sampleRate :: real
  now :: int

datatype buffer = FirstPointer | PointerArray

datatype effect =
    PaWriteStream buffer int
  | PaReadStream buffer int
  | PaSleep int
  | StdErr string
  | LogError string PaError
  | PostLabel nat string real nat
  | Consume nat int
  | Produce nat int
  | Yield

type_synonym worked = "(AudioBlock \<times> effect list) outcome"

text \<open>
  \<open>AudioSink::work\<close>, the same body in AudioSink.cpp and in the standalone sink
  (\<open>who\<close> is the exception's source string). \<open>minFrames\<close> is the macro
  \<open>MIN_FRAMES_BLOCKING\<close>, whose header is not among the sources.
\<close>

definition AudioSink_work :: "string \<Rightarrow> int \<Rightarrow> AudioBlock \<Rightarrow> WorkInfo \<Rightarrow> Native \<Rightarrow> worked" where
  "AudioSink_work who minFrames st wi nv =
     (if minInElements wi = 0 then Inr (st, [])
      else
        let avail = int32 (streamAvailable nv) in
        if avail < 0 then Inl (PaException who ''Pa_GetStreamWriteAvailable'' avail, st)
        else
          let numFrames = min (if avail = 0 then minFrames else avail) (int32 (int (minInElements wi)));
              buf = (if interleaved st then FirstPointer else PointerArray);
              err = ioResult nv;
              underflow = (err = paOutputUnderflowed);
              st1 = (if underflow then st\<lparr>readyTime := int64 (readyTime st + backoffTime st)\<rparr> else st);
              logError = (if underflow then reportLogger st else err \<noteq> paNoError);
              es = [PaWriteStream buf numFrames]
                   @ (if underflow \<and> reportStderror st then [StdErr ''aU''] else [])
                   @ (if logError then [LogError ''Pa_WriteStream'' err] else [])
          in if now nv \<le> readyTime st1 then Inr (st1, es @ [Yield])
             else Inr (st1, es @ map (\<lambda>p. Consume p numFrames) (ports st1)))"

text \<open>The posting of the rate label, shared by both source loops.\<close>

definition postRate :: "AudioBlock \<Rightarrow> Native \<Rightarrow> AudioBlock \<times> effect list" where
  "postRate st nv =
     (if sendLabel st
      then (st\<lparr>sendLabel := False\<rparr>, map (\<lambda>p. PostLabel p ''rxRate'' (sampleRate nv) 0) (ports st))
      else (st, []))"

text \<open>
  The part both source loops share, from \<open>Pa_ReadStream\<close> on, for a frame count
  \<open>numFrames\<close>.
\<close>

definition readAndProduce :: "int \<Rightarrow> AudioBlock \<Rightarrow> Native \<Rightarrow> AudioBlock \<times> effect list" where
  "readAndProduce numFrames st nv =
     (let buf = (if interleaved st then FirstPointer else PointerArray);
          err = ioResult nv;
          overflow = (err = paInputOverflowed);
          st1 = (if overflow then st\<lparr>readyTime := int64 (readyTime st + backoffTime st)\<rparr> else st);
          logError = (if overflow then reportLogger st else err \<noteq> paNoError);
          es = [PaReadStream buf numFrames]
               @ (if overflow \<and> reportStderror st then [StdErr ''aO''] else [])
               @ (if logError then [LogError ''Pa_ReadStream'' err] else []);
          (st2, ls) = postRate st1 nv
      in if now nv \<le> readyTime st2 then (st2, es @ ls @ [Yield])
         else (st2, es @ ls @ map (\<lambda>p. Produce p numFrames) (ports st2)))"

text \<open>\<open>AudioSource::work\<close> of the source built on \<open>AudioBlock\<close>.\<close>

definition AudioSource_work :: "int \<Rightarrow> AudioBlock \<Rightarrow> WorkInfo \<Rightarrow> Native \<Rightarrow> worked" where
  "AudioSource_work minFrames st wi nv =
     (if minOutElements wi = 0 then Inr (st, [])
      else
        let avail = int32 (streamAvailable nv) in
        if avail < 0 then Inl (PaException ''AudioSource::work()'' ''Pa_GetStreamReadAvailable'' avail, st)
        else
          Inr (readAndProduce
                 (min (if avail = 0 then minFrames else avail) (int32 (int (minOutElements wi)))) st nv))"

text \<open>
  \<open>AudioSource::work\<close> of the standalone source (AudioSource.cpp): no forced minimum;
  with no frame to read it sleeps and yields.
\<close>

definition AudioSource_work_standalone :: "AudioBlock \<Rightarrow> WorkInfo \<Rightarrow> Native \<Rightarrow> worked" where
  "AudioSource_work_standalone st wi nv =
     (if minOutElements wi = 0 then Inr (st, [])
      else
        let avail = int32 (streamAvailable nv) in
        if avail < 0 then Inl (PaException ''AudioSource.work()'' ''Pa_GetStreamReadAvailable'' avail, st)
        else
          let numFrames = min avail (int32 (int (minOutElements wi))) in
          if numFrames = 0 then Inr (st, [PaSleep (int (maxTimeoutNs wi div 1000000)), Yield])
          else Inr (readAndProduce numFrames st nv))"

text \<open>Reading a list of effects.\<close>

fun is_Consume :: "effect \<Rightarrow> bool" where
  "is_Consume (Consume p n) = True"
| "is_Consume e = False"

fun is_Produce :: "effect \<Rightarrow> bool" where
  "is_Produce (Produce p n) = True"
| "is_Produce e = False"


fun written :: "effect list \<Rightarrow> int list" where
  "written [] = []"
| "written (PaWriteStream b n # es) = n # written es"
| "written (e # es) = written es"

fun fetched :: "effect list \<Rightarrow> int list" where
  "fetched [] = []"
| "fetched (PaReadStream b n # es) = n # fetched es"
| "fetched (e # es) = fetched es"

text \<open>The state and the effects of a \<open>work()\<close> call, whether it returned or threw.\<close>

definition state_of :: "worked \<Rightarrow> AudioBlock" where
  "state_of r = (case r of Inl (e, st) \<Rightarrow> st | Inr (st, es) \<Rightarrow> st)"

definition effects_of :: "worked \<Rightarrow> effect list" where
  "effects_of r = (case r of Inl (e, st) \<Rightarrow> [] | Inr (st, es) \<Rightarrow> es)"



section \<open>The native library at construction\<close>

record PaDeviceInfo =
  name :: string
  hostApi :: int
  maxInputChannels :: int
  maxOutputChannels :: int
  defaultLowInputLatency :: real
  defaultLowOutputLatency :: real
  defaultHighInputLatency :: real
  defaultHighOutputLatency :: real
  defaultSampleRate :: real

text \<open>
  What the blocks ask of PortAudio while they are built: the result of \<open>Pa_Initialize\<close>,
  the device table (\<open>Pa_GetDeviceCount\<close>, \<open>Pa_GetDeviceInfo\<close>), the host API names
  (\<open>Pa_GetHostApiInfo(i)->name\<close>), the default devices, \<open>Pa_GetSampleSize\<close>, the
  results of \<open>Pa_IsFormatSupported\<close> and \<open>Pa_OpenStream\<close>, and \<open>Pa_GetVersionText\<close>.
  \<open>Pa_IsFormatSupported\<close> and \<open>Pa_OpenStream\<close> take the parameter block as
  \<open>const PaStreamParameters*\<close> and leave it as it is. \<open>hostFormat\<close> is the sample format
  the backend runs the opened stream in, for the format requested (PortAudio converts
  between the two); no call the sources make reads it. Doubles are real numbers here, and
  \<open>Pa_GetHostApiInfo\<close> is taken to know the host API of every device of the table.
\<close>

record PortAudio =
  initialized :: PaError
  devices :: "PaDeviceInfo list"
  hostApiName :: "int \<Rightarrow> string"
  defaultInputDevice :: int
  defaultOutputDevice :: int
  sampleSize :: "nat \<Rightarrow> int"
  formatSupported :: PaError
  opened :: PaError
  hostFormat :: "nat \<Rightarrow> nat"
  versionText :: string

definition Pa_GetDeviceCount :: "PortAudio \<Rightarrow> int" where
  "Pa_GetDeviceCount pa = int (length (devices pa))"

definition Pa_GetDeviceInfo :: "PortAudio \<Rightarrow> int \<Rightarrow> PaDeviceInfo option" where
  "Pa_GetDeviceInfo pa i =
     (if 0 \<le> i \<and> i < Pa_GetDeviceCount pa then Some (devices pa ! nat i) else None)"

text \<open>
  Modelled from the spec: the element type is "one of 5 fixed-width PCM/float kinds"
  (float32/int32/int16/int8/uint8); the framework's \<open>Pothos::DType\<close> is not among the
  sources. The constructors compare the type with these five in turn and have no branch
  for any other: \<open>OtherType n\<close> is an element type that equals none of them, \<open>n\<close> bytes
  wide (\<open>DType("float64")\<close> is \<open>OtherType 8\<close>). \<open>dtype_size\<close> is the byte width
  (\<open>dtype.size()\<close>).
\<close>

datatype DType = Float32 | Int32 | Int16 | Int8 | UInt8 | OtherType nat

fun dtype_size :: "DType \<Rightarrow> nat" where
  "dtype_size Float32 = 4"
| "dtype_size Int32 = 4"
| "dtype_size Int16 = 2"
| "dtype_size Int8 = 1"
| "dtype_size UInt8 = 1"
| "dtype_size (OtherType n) = n"

text \<open>The sample format flags, with the values of \<open>portaudio.h\<close>.\<close>

definition paFloat32 :: nat where "paFloat32 = 1"
definition paInt32 :: nat where "paInt32 = 2"
definition paInt16 :: nat where "paInt16 = 8"
definition paInt8 :: nat where "paInt8 = 16"
definition paUInt8 :: nat where "paUInt8 = 32"
definition paNonInterleaved :: nat where "paNonInterleaved = 2147483648"

text \<open>
  The five \<open>if (dtype == ...) sampleFormat = ...\<close> lines: \<open>found\<close> is what the field
  held before, and still holds for another type.
\<close>

fun formatOf :: "nat \<Rightarrow> DType \<Rightarrow> nat" where
  "formatOf found Float32 = paFloat32"
| "formatOf found Int32 = paInt32"
| "formatOf found Int16 = paInt16"
| "formatOf found Int8 = paInt8"
| "formatOf found UInt8 = paUInt8"
| "formatOf found (OtherType n) = found"

text \<open>
  \<open>sampleFormat |= paNonInterleaved\<close> when the block is not interleaved.
\<close>

definition requestedFormat :: "nat \<Rightarrow> DType \<Rightarrow> bool \<Rightarrow> nat" where
  "requestedFormat found dtype il =
     (if il then formatOf found dtype else (formatOf found dtype) OR paNonInterleaved)"

text \<open>The native stream calls a setup makes, with their arguments, in order.\<close>

datatype call =
    Information string string
  | IsFormatSupported "PaStreamParameters option" "PaStreamParameters option" real
  | OpenStream "PaStreamParameters option" "PaStreamParameters option" real

section \<open>Device resolution\<close>

text \<open>
  \<open>::isdigit\<close> and \<open>std::stoi\<close> on a non-empty string of decimal digits: the value
  when it fits an \<open>int\<close>, \<open>std::out_of_range\<close> (\<open>None\<close>) when it does not.
\<close>

definition isdigit :: "char \<Rightarrow> bool" where
  "isdigit c = (c \<in> set ''0123456789'')"

definition decimal :: "string \<Rightarrow> nat" where
  "decimal s = foldl (\<lambda>a c. 10 * a + (of_char c - 48)) 0 s"

definition stoi :: "string \<Rightarrow> int option" where
  "stoi s = (if 2147483647 < decimal s then None else Some (int (decimal s)))"

text \<open>The scan \<open>for (i = 0; i < Pa_GetDeviceCount(); i++)\<close> for a device of the given name.\<close>

fun nameScan :: "PaDeviceInfo list \<Rightarrow> string \<Rightarrow> int \<Rightarrow> int option" where
  "nameScan [] deviceName i = None"
| "nameScan (d # ds) deviceName i =
     (if name d = deviceName then Some i else nameScan ds deviceName (i + 1))"

text \<open>\<open>getDeviceMatch\<close> of the older \<open>AudioBlock\<close> and of the standalone blocks.\<close>

definition getDeviceMatch :: "PortAudio \<Rightarrow> string \<Rightarrow> string \<Rightarrow> int \<Rightarrow> error + int" where
  "getDeviceMatch pa who deviceName defaultIndex =
     (if deviceName = [] then Inr defaultIndex
      else if list_all isdigit deviceName then
        (case stoi deviceName of
           None \<Rightarrow> Inl (StdOutOfRange ''stoi'')
         | Some index \<Rightarrow>
             if Pa_GetDeviceCount pa \<le> index
             then Inl (RangeException (who @ ''('' @ deviceName @ '')'') ''Device index out of range'')
             else Inr index)
      else
        (case nameScan (devices pa) deviceName 0 of
           Some i \<Rightarrow> Inr i
         | None \<Rightarrow> Inl (NotFoundException (who @ ''('' @ deviceName @ '')'') ''No matching device'')))"

text \<open>
  \<open>AudioBlock::setupDevice\<close> (AudioBlock.cpp). The numeric branch stores the index
  before it checks the range.
\<close>

definition setupDevice :: "PortAudio \<Rightarrow> string \<Rightarrow> AudioBlock \<Rightarrow> AudioBlock outcome" where
  "setupDevice pa deviceName st =
     (let pick = (\<lambda>i. st\<lparr>streamParams := (streamParams st)\<lparr>device := i\<rparr>\<rparr>) in
      if deviceName = []
      then Inr (pick (if isSink st then defaultOutputDevice pa else defaultInputDevice pa))
      else if list_all isdigit deviceName then
        (case stoi deviceName of
           None \<Rightarrow> Inl (StdOutOfRange ''stoi'', st)
         | Some index \<Rightarrow>
             if Pa_GetDeviceCount pa \<le> index
             then Inl (RangeException (''AudioBlock::setupDevice('' @ deviceName @ '')'')
                         ''Device index out of range'', pick index)
             else Inr (pick index))
      else
        (case nameScan (devices pa) deviceName 0 of
           Some i \<Rightarrow> Inr (pick i)
         | None \<Rightarrow> Inl (NotFoundException (''AudioBlock::setupDevice('' @ deviceName @ '')'')
                         ''No matching device'', st)))"

section \<open>Stream setup\<close>

definition inputLatency :: "PaDeviceInfo \<Rightarrow> real" where
  "inputLatency info = (defaultLowInputLatency info + defaultHighInputLatency info) / 2"

definition outputLatency :: "PaDeviceInfo \<Rightarrow> real" where
  "outputLatency info = (defaultLowOutputLatency info + defaultHighOutputLatency info) / 2"

text \<open>
  The common end of both \<open>AudioBlock::setupStream\<close> versions, from
  \<open>requestedSize = Pa_GetSampleSize(...)\<close> on. The result comes with the native calls
  made.
\<close>

definition tryAndOpen :: "PortAudio \<Rightarrow> real \<Rightarrow> AudioBlock \<Rightarrow> AudioBlock outcome \<times> call list" where
  "tryAndOpen pa sampRate st =
     (let params = streamParams st;
          requestedSize = sampleSize pa (sampleFormat params);
          probe = IsFormatSupported None (Some params) sampRate;
          opn = OpenStream (if isSink st then None else Some params)
                  (if isSink st then Some params else None) sampRate
      in if formatSupported pa \<noteq> paNoError
         then (Inl (PaException ''AudioBlock::setupStream()'' ''Pa_IsFormatSupported''
                      (formatSupported pa), st), [probe])
         else if opened pa \<noteq> paNoError
         then (Inl (PaException ''AudioBlock::setupStream()'' ''Pa_OpenStream'' (opened pa), st),
               [probe, opn])
         else
           let st1 = st\<lparr>stream := True\<rparr>
           in if sampleSize pa (sampleFormat (streamParams st1)) \<noteq> requestedSize
              then (Inl (Exception ''AudioBlock::setupStream()'' ''Pa_GetSampleSize mismatch'', st1),
                    [probe, opn])
              else (Inr st1, [probe, opn]))"

text \<open>\<open>AudioBlock::setupStream(sampRate)\<close> (AudioBlock.cpp).\<close>

definition setupStream :: "PortAudio \<Rightarrow> real \<Rightarrow> AudioBlock \<Rightarrow> AudioBlock outcome \<times> call list" where
  "setupStream pa sampRate st =
     (case Pa_GetDeviceInfo pa (device (streamParams st)) of
        None \<Rightarrow> (Inl (NullPointer, st), [])
      | Some info \<Rightarrow>
          let latency = (if isSink st then outputLatency info else inputLatency info);
              st1 = st\<lparr>streamParams := (streamParams st)\<lparr>suggestedLatency := latency\<rparr>\<rparr>;
              (r, cs) = tryAndOpen pa sampRate st1
          in (r, Information (name info) (hostApiName pa (hostApi info)) # cs))"

text \<open>
  \<open>AudioBlock::setupStream(deviceName, sampRate)\<close> of the older \<open>AudioBlock\<close>, the
  base class of a sink and of a source alike (\<open>_isSink\<close> chooses the side of
  \<open>Pa_OpenStream\<close>).
\<close>

definition setupStream_named :: "PortAudio \<Rightarrow> string \<Rightarrow> real \<Rightarrow> AudioBlock \<Rightarrow> AudioBlock outcome \<times> call list" where
  "setupStream_named pa deviceName sampRate st =
     (case getDeviceMatch pa ''AudioBlock'' deviceName (defaultOutputDevice pa) of
        Inl e \<Rightarrow> (Inl (e, st), [])
      | Inr deviceIndex \<Rightarrow>
          (case Pa_GetDeviceInfo pa deviceIndex of
             None \<Rightarrow> (Inl (NullPointer, st), [])
           | Some info \<Rightarrow>
               let st1 = st\<lparr>streamParams := (streamParams st)
                           \<lparr>device := deviceIndex, suggestedLatency := outputLatency info\<rparr>\<rparr>;
                   (r, cs) = tryAndOpen pa sampRate st1
               in (r, Information (name info) (hostApiName pa (hostApi info)) # cs)))"

section \<open>Constructors\<close>

text \<open>
  \<open>raw\<close> stands for the memory the object is built in: the constructors leave
  \<open>_streamParams.device\<close>, \<open>_streamParams.suggestedLatency\<close> and the backoff duration
  as they find them, and the sample format too when the element type is none of the
  five. A default-constructed \<open>time_point\<close> is the epoch.
\<close>

definition AudioBlock_new :: "PortAudio \<Rightarrow> AudioBlock \<Rightarrow> string \<Rightarrow> bool \<Rightarrow> DType \<Rightarrow> nat \<Rightarrow> string
    \<Rightarrow> error + AudioBlock" where
  "AudioBlock_new pa raw who sink dtype numChans chanMode =
     (if initialized pa \<noteq> paNoError
      then Inl (PaException ''AudioBlock()'' ''Pa_Initialize'' (initialized pa))
      else Inr \<lparr>blockName = who, isSink = sink, stream = False,
                streamParams = (streamParams raw)
                  \<lparr>channelCount := int32 (int numChans),
                   sampleFormat := requestedFormat (sampleFormat (streamParams raw)) dtype
                                     (chanMode = ''INTERLEAVED'')\<rparr>,
                interleaved = (chanMode = ''INTERLEAVED''), sendLabel = False,
                reportLogger = False, reportStderror = True,
                backoffTime = backoffTime raw, readyTime = 0, ports = []\<rparr>)"

text \<open>
  \<open>setupInput\<close>/\<open>setupOutput\<close>: port 0 when interleaved, one port per channel
  otherwise.
\<close>

definition setupPorts :: "nat \<Rightarrow> AudioBlock \<Rightarrow> AudioBlock" where
  "setupPorts numChans st = st\<lparr>ports := (if interleaved st then [0] else [0..<numChans])\<rparr>"

definition AudioSink_new :: "PortAudio \<Rightarrow> AudioBlock \<Rightarrow> DType \<Rightarrow> nat \<Rightarrow> string \<Rightarrow> error + AudioBlock" where
  "AudioSink_new pa raw dtype numChans chanMode =
     (case AudioBlock_new pa raw ''AudioSink'' True dtype numChans chanMode of
        Inl e \<Rightarrow> Inl e
      | Inr st \<Rightarrow> Inr (setupPorts numChans st))"

definition AudioSource_new :: "PortAudio \<Rightarrow> AudioBlock \<Rightarrow> DType \<Rightarrow> nat \<Rightarrow> string \<Rightarrow> error + AudioBlock" where
  "AudioSource_new pa raw dtype numChans chanMode =
     (case AudioBlock_new pa raw ''AudioSource'' False dtype numChans chanMode of
        Inl e \<Rightarrow> Inl e
      | Inr st \<Rightarrow> Inr (setupPorts numChans st))"

text \<open>
  The constructor of the standalone sink. Its stream parameters are a local variable
  (\<open>streamParams raw\<close> is what that variable holds at first); the model keeps them in
  the object for reference.
\<close>

definition AudioSink_standalone :: "PortAudio \<Rightarrow> AudioBlock \<Rightarrow> string \<Rightarrow> real \<Rightarrow> DType \<Rightarrow> nat \<Rightarrow> string
    \<Rightarrow> (error + AudioBlock) \<times> call list" where
  "AudioSink_standalone pa raw deviceName sampRate dtype numChans chanMode =
     (if initialized pa \<noteq> paNoError
      then (Inl (PaException ''AudioSink()'' ''Pa_Initialize'' (initialized pa)), [])
      else
        case getDeviceMatch pa ''AudioSink'' deviceName (defaultOutputDevice pa) of
          Inl e \<Rightarrow> (Inl e, [])
        | Inr deviceIndex \<Rightarrow>
          (case Pa_GetDeviceInfo pa deviceIndex of
             None \<Rightarrow> (Inl NullPointer, [])
           | Some info \<Rightarrow>
               let il = (chanMode = ''INTERLEAVED'');
                   params = \<lparr>device = deviceIndex, channelCount = int32 (int numChans),
                             sampleFormat = requestedFormat (sampleFormat (streamParams raw)) dtype il,
                             suggestedLatency = outputLatency info\<rparr>;
                   cs = [Information (name info) (hostApiName pa (hostApi info)),
                         IsFormatSupported None (Some params) sampRate];
                   opn = OpenStream None (Some params) sampRate
               in if formatSupported pa \<noteq> paNoError
                  then (Inl (PaException ''AudioSink()'' ''Pa_IsFormatSupported'' (formatSupported pa)), cs)
                  else if opened pa \<noteq> paNoError
                  then (Inl (PaException ''AudioSink()'' ''Pa_OpenStream'' (opened pa)), cs @ [opn])
                  else if sampleSize pa (sampleFormat params) \<noteq> int32 (int (dtype_size dtype))
                  then (Inl (Exception ''AudioSink()'' ''Pa_GetSampleSize mismatch''), cs @ [opn])
                  else (Inr (setupPorts numChans
                          \<lparr>blockName = ''AudioSink'', isSink = True, stream = True,
                           streamParams = params, interleaved = il, sendLabel = False,
                           reportLogger = False, reportStderror = True,
                           backoffTime = backoffTime raw, readyTime = 0, ports = []\<rparr>),
                        cs @ [opn])))"

text \<open>The constructor of the standalone source (AudioSource.cpp).\<close>

definition AudioSource_standalone :: "PortAudio \<Rightarrow> AudioBlock \<Rightarrow> string \<Rightarrow> real \<Rightarrow> DType \<Rightarrow> nat \<Rightarrow> string
    \<Rightarrow> (error + AudioBlock) \<times> call list" where
  "AudioSource_standalone pa raw deviceName sampRate dtype numChans chanMode =
     (if initialized pa \<noteq> paNoError
      then (Inl (PaException ''AudioSource()'' ''Pa_Initialize'' (initialized pa)), [])
      else
        case getDeviceMatch pa ''AudioSource'' deviceName (defaultInputDevice pa) of
          Inl e \<Rightarrow> (Inl e, [])
        | Inr deviceIndex \<Rightarrow>
          (case Pa_GetDeviceInfo pa deviceIndex of
             None \<Rightarrow> (Inl NullPointer, [])
           | Some info \<Rightarrow>
               let il = (chanMode = ''INTERLEAVED'');
                   params = \<lparr>device = deviceIndex, channelCount = int32 (int numChans),
                             sampleFormat = requestedFormat (sampleFormat (streamParams raw)) dtype il,
                             suggestedLatency = inputLatency info\<rparr>;
                   cs = [Information (name info) (hostApiName pa (hostApi info)),
                         IsFormatSupported (Some params) None sampRate];
                   opn = OpenStream (Some params) None sampRate
               in if formatSupported pa \<noteq> paNoError
                  then (Inl (PaException ''AudioSource()'' ''Pa_IsFormatSupported'' (formatSupported pa)), cs)
                  else if opened pa \<noteq> paNoError
                  then (Inl (PaException ''AudioSource()'' ''Pa_OpenStream'' (opened pa)), cs @ [opn])
                  else if sampleSize pa (sampleFormat params) \<noteq> int32 (int (dtype_size dtype))
                  then (Inl (Exception ''AudioSource()'' ''Pa_GetSampleSize mismatch''), cs @ [opn])
                  else (Inr (setupPorts numChans
                          \<lparr>blockName = ''AudioSource'', isSink = False, stream = True,
                           streamParams = params, interleaved = il, sendLabel = False,
                           reportLogger = False, reportStderror = True,
                           backoffTime = backoffTime raw, readyTime = 0, ports = []\<rparr>),
                        cs @ [opn])))"

section \<open>Device enumeration\<close>

text \<open>
  The document the plugin call \<open>/devices/audio/info\<close> builds, before the YAML or JSON
  library prints it. Keys are listed in the order the source sets them.
\<close>

datatype document =
    Null
  | Str string
  | Num int
  | Dbl real
  | Arr "document list"
  | Obj "(string \<times> document) list"

definition infoObject :: "PortAudio \<Rightarrow> PaDeviceInfo \<Rightarrow> document" where
  "infoObject pa info =
     Obj [(''Device Name'', Str (name info)),
          (''Host API Name'', Str (hostApiName pa (hostApi info))),
          (''Max Input Channels'', Num (maxInputChannels info)),
          (''Max Output Channels'', Num (maxOutputChannels info)),
          (''Default Sample Rate'', Dbl (defaultSampleRate info))]"

text \<open>\<open>devicesArray\<close> after the loop: still null when nothing was pushed.\<close>

definition devicesArray :: "PortAudio \<Rightarrow> document" where
  "devicesArray pa = (if devices pa = [] then Null else Arr (map (infoObject pa) (devices pa)))"

text \<open>
  The YAML version prints \<open>topObject\<close> (a \<open>YAML::Node\<close> assigned before the loop
  shares what is pushed afterwards).
\<close>

definition enumerateAudioDevices_yaml :: "PortAudio \<Rightarrow> document" where
  "enumerateAudioDevices_yaml pa =
     Obj [(''PortAudio Device'', devicesArray pa), (''PortAudio Version'', Str (versionText pa))]"

text \<open>
  The JSON version builds the same \<open>topObject\<close> and returns
  \<open>devicesArray.dump()\<close>.
\<close>

definition enumerateAudioDevices_json :: "PortAudio \<Rightarrow> document" where
  "enumerateAudioDevices_json pa =
     (let topObject = Obj [(''PortAudio Device'', devicesArray pa),
                           (''PortAudio Version'', Str (versionText pa))]
      in devicesArray pa)"

text \<open>Every string a document holds, keys included.\<close>

fun strings :: "document \<Rightarrow> string list" where
  "strings Null = []"
| "strings (Str s) = [s]"
| "strings (Num n) = []"
| "strings (Dbl d) = []"
| "strings (Arr ds) = concat (map strings ds)"
| "strings (Obj kvs) = concat (map (\<lambda>(k, d). k # strings d) kvs)"

section \<open>Reading a setup\<close>

text \<open>
  The device a setup left in the object, the suggested latencies it handed to
  \<open>Pa_OpenStream\<close>, and whether it called \<open>Pa_OpenStream\<close> at all.
\<close>

definition resolved :: "AudioBlock outcome \<Rightarrow> int option" where
  "resolved r = (case r of Inl x \<Rightarrow> None | Inr st \<Rightarrow> Some (device (streamParams st)))"

fun latencies :: "call list \<Rightarrow> real list" where
  "latencies [] = []"
| "latencies (OpenStream (Some p) b r # cs) = suggestedLatency p # latencies cs"
| "latencies (OpenStream None (Some p) r # cs) = suggestedLatency p # latencies cs"
| "latencies (c # cs) = latencies cs"

fun is_OpenStream :: "call \<Rightarrow> bool" where
  "is_OpenStream (OpenStream a b r) = True"
| "is_OpenStream c = False"

section \<open>Example values\<close>

definition sinkBlock :: AudioBlock where
  "sinkBlock =
     \<lparr>blockName = ''AudioSink'', isSink = True, stream = True,
      streamParams = \<lparr>device = 1, channelCount = 2, sampleFormat = 1, suggestedLatency = 6\<rparr>,
      interleaved = True, sendLabel = False, reportLogger = False, reportStderror = True,
      backoffTime = 5000000, readyTime = 100, ports = [0]\<rparr>"

definition sourceBlock :: AudioBlock where
  "sourceBlock =
     \<lparr>blockName = ''AudioSource'', isSink = False, stream = True,
      streamParams = \<lparr>device = 0, channelCount = 2, sampleFormat = 2147483649, suggestedLatency = 2\<rparr>,
      interleaved = False, sendLabel = False, reportLogger = True, reportStderror = False,
      backoffTime = 5000000, readyTime = 100, ports = [0, 1]\<rparr>"

definition idleInfo :: WorkInfo where
  "idleInfo = \<lparr>minInElements = 0, minOutElements = 0, maxTimeoutNs = 5000000\<rparr>"

definition busyInfo :: WorkInfo where
  "busyInfo = \<lparr>minInElements = 4096, minOutElements = 4096, maxTimeoutNs = 5000000\<rparr>"

definition hugeInfo :: WorkInfo where
  "hugeInfo = \<lparr>minInElements = 2147483648, minOutElements = 2147483648, maxTimeoutNs = 5000000\<rparr>"

definition calm :: Native where
  "calm = \<lparr>streamAvailable = 512, ioResult = paNoError, sampleRate = 44100, now = 50\<rparr>"

definition late :: Native where
  "late = \<lparr>streamAvailable = 512, ioResult = paNoError, sampleRate = 44100, now = 200\<rparr>"

definition underrun :: Native where
  "underrun = \<lparr>streamAvailable = 0, ioResult = paOutputUnderflowed, sampleRate = 44100, now = 200\<rparr>"

definition overrun :: Native where
  "overrun = \<lparr>streamAvailable = 512, ioResult = paInputOverflowed, sampleRate = 44100, now = 200\<rparr>"


definition mic :: PaDeviceInfo where
  "mic = \<lparr>name = ''Mic'', hostApi = 0, maxInputChannels = 2, maxOutputChannels = 0,
          defaultLowInputLatency = 1, defaultLowOutputLatency = 5,
          defaultHighInputLatency = 3, defaultHighOutputLatency = 7,
          defaultSampleRate = 44100\<rparr>"

definition speaker :: PaDeviceInfo where
  "speaker = \<lparr>name = ''Speaker'', hostApi = 0, maxInputChannels = 0, maxOutputChannels = 2,
              defaultLowInputLatency = 10, defaultLowOutputLatency = 20,
              defaultHighInputLatency = 30, defaultHighOutputLatency = 40,
              defaultSampleRate = 48000\<rparr>"

text \<open>PortAudio's own table of sample sizes, on the formats the blocks request.\<close>

definition tableSize :: "nat \<Rightarrow> int" where
  "tableSize f =
     (if f \<in> {1, 2, 2147483649, 2147483650} then 4
      else if f \<in> {8, 2147483656} then 2
      else if f \<in> {16, 32, 2147483664, 2147483680} then 1
      else - 9994)"

definition host :: PortAudio where
  "host = \<lparr>initialized = paNoError, devices = [mic, speaker], hostApiName = (\<lambda>i. ''ALSA''),
           defaultInputDevice = 0, defaultOutputDevice = 1, sampleSize = tableSize,
           formatSupported = paNoError, opened = paNoError, hostFormat = (\<lambda>f. f),
           versionText = ''PortAudio V19.6.0''\<rparr>"

text \<open>A backend that runs every stream in 16-bit integers, whatever was requested.\<close>

definition converting :: PortAudio where
  "converting = host\<lparr>hostFormat := (\<lambda>f. paInt16)\<rparr>"

text \<open>The interleaved float32 sink the standalone constructor builds on the default device.\<close>

definition floatSink :: AudioBlock where
  "floatSink =
     \<lparr>blockName = ''AudioSink'', isSink = True, stream = True,
      streamParams = \<lparr>device = 1, channelCount = 2, sampleFormat = 1, suggestedLatency = 30\<rparr>,
      interleaved = True, sendLabel = False, reportLogger = False, reportStderror = True,
      backoffTime = 0, readyTime = 0, ports = [0]\<rparr>"

text \<open>A sink one underflow away from the end of the tick range.\<close>

definition farSink :: AudioBlock where
  "farSink = sinkBlock\<lparr>backoffTime := 9223372036854000000, readyTime := 9223372036854000100\<rparr>"

text \<open>
  Memory as a constructor may find it: \<open>memory\<close> zeroed but for the device,
  \<open>staleMemory\<close> with a float32 format flag left in the sample format.
\<close>

definition memory :: AudioBlock where
  "memory =
     \<lparr>blockName = [], isSink = False, stream = False,
      streamParams = \<lparr>device = - 7, channelCount = 0, sampleFormat = 0, suggestedLatency = 0\<rparr>,
      interleaved = False, sendLabel = False, reportLogger = False, reportStderror = False,
      backoffTime = 0, readyTime = 0, ports = []\<rparr>"

definition staleMemory :: AudioBlock where
  "staleMemory = memory\<lparr>streamParams := (streamParams memory)\<lparr>sampleFormat := 1\<rparr>\<rparr>"

text \<open>
  A source on the older \<open>AudioBlock\<close>: \<open>AudioBlock("AudioSource", false, float32, 2,
  "PORTPERCHAN")\<close>.
\<close>

definition legacySource :: AudioBlock where
  "legacySource =
     \<lparr>blockName = ''AudioSource'', isSink = False, stream = False,
      streamParams = \<lparr>device = - 7, channelCount = 2, sampleFormat = 2147483649, suggestedLatency = 0\<rparr>,
      interleaved = False, sendLabel = False, reportLogger = False, reportStderror = True,
      backoffTime = 0, readyTime = 0, ports = []\<rparr>"

section \<open>Properties of the setters\<close>

lemma setReportModeBody_valid:
  assumes "mode = ''LOGGER'' \<or> mode = ''STDERROR'' \<or> mode = ''DISABLED''"
  shows "setReportModeBody m w mode st =
           Inr (st\<lparr>reportLogger := (mode = ''LOGGER''), reportStderror := (mode = ''STDERROR'')\<rparr>)"
  using assms by (simp add: setReportModeBody_def)

lemma setReportModeBody_invalid:
  assumes "mode \<noteq> ''LOGGER''" and "mode \<noteq> ''STDERROR''" and "mode \<noteq> ''DISABLED''"
  shows "setReportModeBody m w mode st = Inl (InvalidArgumentException (m @ ''('' @ mode @ '')'') w, st)"
  using assms by (simp add: setReportModeBody_def)

text \<open>
  C9. A mode string other than "LOGGER", "STDERROR" and "DISABLED" makes each of the
  three report setters throw an invalid-argument exception and leave the object, so both
  report flags, as it was. Each of the three valid strings is accepted, and sets the
  logger flag iff the mode is "LOGGER" and the stderr flag iff it is "STDERROR".
\<close>

theorem report_setters_reject_or_set:
  assumes "setter \<in> {AudioBlock_setReportMode, AudioSource_setReportOverflow, AudioSink_setReportUnderflow}"
  shows "(mode \<notin> {''LOGGER'', ''STDERROR'', ''DISABLED''} \<longrightarrow>
            (\<exists>src what st'. setter mode st = Inl (InvalidArgumentException src what, st')
               \<and> st' = st
               \<and> reportLogger st' = reportLogger st \<and> reportStderror st' = reportStderror st))
       \<and> (mode \<in> {''LOGGER'', ''STDERROR'', ''DISABLED''} \<longrightarrow>
            (\<exists>st'. setter mode st = Inr st'
               \<and> reportLogger st' = (mode = ''LOGGER'')
               \<and> reportStderror st' = (mode = ''STDERROR'')))"
proof (intro conjI impI)
  assume bad: "mode \<notin> {''LOGGER'', ''STDERROR'', ''DISABLED''}"
  then have "setReportModeBody m w mode st = Inl (InvalidArgumentException (m @ ''('' @ mode @ '')'') w, st)"
    for m w
    by (intro setReportModeBody_invalid) auto
  with assms show "\<exists>src what st'. setter mode st = Inl (InvalidArgumentException src what, st')
      \<and> st' = st \<and> reportLogger st' = reportLogger st \<and> reportStderror st' = reportStderror st"
    by (auto simp: AudioBlock_setReportMode_def AudioSource_setReportOverflow_def
        AudioSink_setReportUnderflow_def)
next
  assume good: "mode \<in> {''LOGGER'', ''STDERROR'', ''DISABLED''}"
  then have "setReportModeBody m w mode st =
      Inr (st\<lparr>reportLogger := (mode = ''LOGGER''), reportStderror := (mode = ''STDERROR'')\<rparr>)"
    for m w
    by (intro setReportModeBody_valid) auto
  with assms show "\<exists>st'. setter mode st = Inr st'
      \<and> reportLogger st' = (mode = ''LOGGER'') \<and> reportStderror st' = (mode = ''STDERROR'')"
    by (auto simp: AudioBlock_setReportMode_def AudioSource_setReportOverflow_def
        AudioSink_setReportUnderflow_def)
qed

theorem report_setters_reject_or_set_witness:
  "(\<exists>src what. AudioBlock_setReportMode ''VERBOSE'' sinkBlock
        = Inl (InvalidArgumentException src what, sinkBlock))
   \<and> (\<exists>st'. AudioSource_setReportOverflow ''LOGGER'' sourceBlock = Inr st'
        \<and> reportLogger st' \<and> \<not> reportStderror st')
   \<and> (\<exists>st'. AudioSink_setReportUnderflow ''DISABLED'' sinkBlock = Inr st'
        \<and> \<not> reportLogger st' \<and> \<not> reportStderror st')"
  using report_setters_reject_or_set [of AudioBlock_setReportMode "''VERBOSE''" sinkBlock]
    report_setters_reject_or_set [of AudioSource_setReportOverflow "''LOGGER''" sourceBlock]
    report_setters_reject_or_set [of AudioSink_setReportUnderflow "''DISABLED''" sinkBlock]
  by simp

section \<open>Properties of the work loops\<close>

lemmas pa_codes = paNoError_def paInputOverflowed_def paOutputUnderflowed_def

lemma int32_id: "- 2147483648 \<le> x \<Longrightarrow> x \<le> 2147483647 \<Longrightarrow> int32 x = x"
  by (simp add: int32_def)

lemma int64_id:
  "- 9223372036854775808 \<le> x \<Longrightarrow> x \<le> 9223372036854775807 \<Longrightarrow> int64 x = x"
  by (simp add: int64_def)

lemma written_append: "written (xs @ ys) = written xs @ written ys"
  by (induction xs rule: written.induct) simp_all


lemma labels_quiet:
  "filter is_Produce (map (\<lambda>p. PostLabel p l r i) ps) = []"
  "filter is_Consume (map (\<lambda>p. PostLabel p l r i) ps) = []"
  "fetched (map (\<lambda>p. PostLabel p l r i) ps) = []"
  "Yield \<notin> set (map (\<lambda>p. PostLabel p l r i) ps)"
  by (induction ps) auto

lemma consumes_only:
  "filter is_Consume (map (\<lambda>p. Consume p n) ps) = map (\<lambda>p. Consume p n) ps"
  "written (map (\<lambda>p. Consume p n) ps) = []"
  by (induction ps) auto


lemma postRate_quiet:
  "postRate st nv = (st2, ls) \<Longrightarrow>
     filter is_Produce ls = [] \<and> Yield \<notin> set ls \<and> fetched ls = []"
  by (auto simp: postRate_def labels_quiet split: if_splits)

lemma sink_underflow:
  assumes "AudioSink_work who mf st wi nv = Inr (st', es)" and "written es \<noteq> []"
    and "ioResult nv = paOutputUnderflowed"
  shows "readyTime st' = int64 (readyTime st + backoffTime st)"
  using assms by (auto simp: AudioSink_work_def Let_def split: if_splits)

lemma sink_backoff:
  assumes "AudioSink_work who mf st wi nv = Inr (st', es)" and "now nv \<le> readyTime st'"
  shows "filter is_Consume es = [] \<and> (minInElements wi \<noteq> 0 \<longrightarrow> Yield \<in> set es)"
  using assms by (auto simp: AudioSink_work_def Let_def split: if_splits)

lemma readAndProduce_overflow:
  assumes "readAndProduce n st nv = (st', es)" and "ioResult nv = paInputOverflowed"
  shows "readyTime st' = int64 (readyTime st + backoffTime st)"
  using assms
  by (auto simp: readAndProduce_def Let_def postRate_def split: if_splits prod.splits)

lemma readAndProduce_backoff:
  assumes "readAndProduce n st nv = (st', es)" and "now nv \<le> readyTime st'"
  shows "filter is_Produce es = [] \<and> Yield \<in> set es"
  using assms
  by (auto simp: readAndProduce_def Let_def split: if_splits prod.splits dest: postRate_quiet)


lemma source_overflow:
  assumes "W = AudioSource_work mf \<or> W = AudioSource_work_standalone"
    and "W st wi nv = Inr (st', es)" and "fetched es \<noteq> []" and "ioResult nv = paInputOverflowed"
  shows "readyTime st' = int64 (readyTime st + backoffTime st)"
  using assms
  by (auto simp: AudioSource_work_def AudioSource_work_standalone_def Let_def
      split: if_splits dest: readAndProduce_overflow)

lemma source_backoff:
  assumes "W = AudioSource_work mf \<or> W = AudioSource_work_standalone"
    and "W st wi nv = Inr (st', es)" and "now nv \<le> readyTime st'"
  shows "filter is_Produce es = [] \<and> (minOutElements wi \<noteq> 0 \<longrightarrow> Yield \<in> set es)"
  using assms
  by (auto simp: AudioSource_work_def AudioSource_work_standalone_def Let_def
      split: if_splits dest: readAndProduce_backoff)

text \<open>A call that throws has touched nothing.\<close>

lemma work_throw_keeps:
  "AudioSink_work who mf st wi nv = Inl (e, st') \<Longrightarrow> st' = st"
  "AudioSource_work mf st wi nv = Inl (e, st') \<Longrightarrow> st' = st"
  "AudioSource_work_standalone st wi nv = Inl (e, st') \<Longrightarrow> st' = st"
  by (auto simp: AudioSink_work_def AudioSource_work_def AudioSource_work_standalone_def Let_def
      split: if_splits)

lemma sink_underrun_run:
  "AudioSink_work ''AudioSink::work()'' 1024 sinkBlock busyInfo underrun =
     Inr (sinkBlock\<lparr>readyTime := 5000100\<rparr>,
          [PaWriteStream FirstPointer 1024, StdErr ''aU'', Yield])"
  by (simp add: AudioSink_work_def sinkBlock_def busyInfo_def underrun_def int32_def int64_def
      pa_codes)

lemma source_overrun_run:
  "AudioSource_work 1024 sourceBlock busyInfo overrun =
     Inr (sourceBlock\<lparr>readyTime := 5000100\<rparr>,
          [PaReadStream PointerArray 512, LogError ''Pa_ReadStream'' paInputOverflowed, Yield])"
  by (simp add: AudioSource_work_def readAndProduce_def postRate_def sourceBlock_def busyInfo_def
      overrun_def int32_def int64_def pa_codes)

text \<open>
  C1 (as amended). In a work call of the sink (of either source) whose native write (read)
  reports an underflow (overflow), the ready-time afterwards is the ready-time before plus
  the configured backoff, provided that sum is within the clock's 64-bit tick count
  (beyond it the sum wraps). In a work call in which the clock has not passed the
  ready-time (the updated one, which the loop compares), no \<open>consume\<close> (no \<open>produce\<close>) is
  called on any port; and the loop yields whenever the call had elements available on its
  ports and returned. (With nothing available it returns at once, without a yield.)
\<close>

theorem backoff_advances_and_suspends:
  "(AudioSink_work who mf st wi nv = Inr (st', es) \<longrightarrow>
      (written es \<noteq> [] \<and> ioResult nv = paOutputUnderflowed \<longrightarrow>
         readyTime st' = int64 (readyTime st + backoffTime st)
       \<and> (- 9223372036854775808 \<le> readyTime st + backoffTime st
            \<and> readyTime st + backoffTime st \<le> 9223372036854775807
          \<longrightarrow> readyTime st' = readyTime st + backoffTime st))
    \<and> (now nv \<le> readyTime st' \<longrightarrow>
         filter is_Consume es = [] \<and> (minInElements wi \<noteq> 0 \<longrightarrow> Yield \<in> set es)))
   \<and> ((W = AudioSource_work mf \<or> W = AudioSource_work_standalone) \<and> W st wi nv = Inr (st', es) \<longrightarrow>
      (fetched es \<noteq> [] \<and> ioResult nv = paInputOverflowed \<longrightarrow>
         readyTime st' = int64 (readyTime st + backoffTime st)
       \<and> (- 9223372036854775808 \<le> readyTime st + backoffTime st
            \<and> readyTime st + backoffTime st \<le> 9223372036854775807
          \<longrightarrow> readyTime st' = readyTime st + backoffTime st))
    \<and> (now nv \<le> readyTime st' \<longrightarrow>
         filter is_Produce es = [] \<and> (minOutElements wi \<noteq> 0 \<longrightarrow> Yield \<in> set es)))"
  using sink_underflow [of who mf st wi nv st' es] sink_backoff [of who mf st wi nv st' es]
    source_overflow [of W mf st wi nv st' es] source_backoff [of W mf st wi nv st' es]
    int64_id [of "readyTime st + backoffTime st"]
  by auto

theorem backoff_advances_and_suspends_witness:
  "- 9223372036854775808 \<le> readyTime sinkBlock + backoffTime sinkBlock
   \<and> readyTime sinkBlock + backoffTime sinkBlock \<le> 9223372036854775807
   \<and> readyTime (state_of (AudioSink_work ''AudioSink::work()'' 1024 sinkBlock busyInfo underrun))
     = readyTime sinkBlock + backoffTime sinkBlock
   \<and> effects_of (AudioSink_work ''AudioSink::work()'' 1024 sinkBlock busyInfo underrun)
     = [PaWriteStream FirstPointer 1024, StdErr ''aU'', Yield]
   \<and> - 9223372036854775808 \<le> readyTime sourceBlock + backoffTime sourceBlock
   \<and> readyTime sourceBlock + backoffTime sourceBlock \<le> 9223372036854775807
   \<and> readyTime (state_of (AudioSource_work 1024 sourceBlock busyInfo overrun))
     = readyTime sourceBlock + backoffTime sourceBlock
   \<and> effects_of (AudioSource_work 1024 sourceBlock busyInfo overrun)
     = [PaReadStream PointerArray 512, LogError ''Pa_ReadStream'' paInputOverflowed, Yield]"
  using backoff_advances_and_suspends [of "''AudioSink::work()''" 1024 sinkBlock busyInfo underrun
      "sinkBlock\<lparr>readyTime := 5000100\<rparr>" "[PaWriteStream FirstPointer 1024, StdErr ''aU'', Yield]"
      "AudioSource_work 1024"]
    backoff_advances_and_suspends [of "''AudioSink::work()''" 1024 sourceBlock busyInfo overrun
      "sourceBlock\<lparr>readyTime := 5000100\<rparr>"
      "[PaReadStream PointerArray 512, LogError ''Pa_ReadStream'' paInputOverflowed, Yield]"
      "AudioSource_work 1024"]
  by (simp add: sink_underrun_run source_overrun_run state_of_def effects_of_def)
    (simp add: sinkBlock_def sourceBlock_def)

text \<open>
  The claim as first stated fails twice. On a call with no input available, the clock
  (50) has not passed the ready-time (100), and the sink returns without yielding. And on
  an underflow whose sum leaves the tick range, the ready-time afterwards is not the sum:
  9223372036854000100 plus a backoff of 9223372036854000000 ticks wraps to -1551516, and
  the sink consumes.
\<close>

theorem idle_work_returns_without_yield_counterexample:
  "now calm \<le> readyTime sinkBlock
   \<and> AudioSink_work ''AudioSink::work()'' 1024 sinkBlock idleInfo calm = Inr (sinkBlock, [])
   \<and> Yield \<notin> set (effects_of (AudioSink_work ''AudioSink::work()'' 1024 sinkBlock idleInfo calm))
   \<and> readyTime farSink + backoffTime farSink = 18446744073708000100
   \<and> AudioSink_work ''AudioSink::work()'' 1024 farSink busyInfo underrun
       = Inr (farSink\<lparr>readyTime := - 1551516\<rparr>,
              [PaWriteStream FirstPointer 1024, StdErr ''aU'', Consume 0 1024])"
  by (simp add: AudioSink_work_def idleInfo_def calm_def effects_of_def busyInfo_def underrun_def
      farSink_def int32_def int64_def pa_codes)
    (simp add: sinkBlock_def)

text \<open>
  C7 (as amended). When every input port has at least one element, and the number of
  elements and the writable capacity fit an \<open>int\<close>, the sink writes \<open>min W minInElements\<close>
  frames, where \<open>W\<close> is the capacity when it is positive and \<open>MIN_FRAMES_BLOCKING\<close> when it
  is zero; and when the clock has passed the ready-time, it consumes exactly that count
  from every input port.
\<close>

theorem sink_writes_clamped_frames:
  assumes "1 \<le> minInElements wi" and "minInElements wi \<le> 2147483647"
    and "0 \<le> streamAvailable nv" and "streamAvailable nv \<le> 2147483647"
  shows "\<exists>st' es. AudioSink_work who minFrames st wi nv = Inr (st', es)
      \<and> written es =
          [min (if streamAvailable nv = 0 then minFrames else streamAvailable nv) (int (minInElements wi))]
      \<and> (readyTime st' < now nv \<longrightarrow>
           filter is_Consume es =
             map (\<lambda>p. Consume p
                   (min (if streamAvailable nv = 0 then minFrames else streamAvailable nv)
                        (int (minInElements wi))))
                 (ports st))"
proof -
  have a: "int32 (streamAvailable nv) = streamAvailable nv"
    using assms(3,4) by (intro int32_id) auto
  have m: "int32 (int (minInElements wi)) = int (minInElements wi)"
    using assms(1,2) by (intro int32_id) auto
  from assms(1) have nz: "minInElements wi \<noteq> 0" by simp
  show ?thesis
    using assms(3) nz
    by (simp add: AudioSink_work_def Let_def a m written_append consumes_only)
qed

theorem sink_writes_clamped_frames_witness:
  "1 \<le> minInElements busyInfo \<and> minInElements busyInfo \<le> 2147483647
   \<and> 0 \<le> streamAvailable late \<and> streamAvailable late \<le> 2147483647
   \<and> AudioSink_work ''AudioSink.work()'' 1024 sinkBlock busyInfo late =
       Inr (sinkBlock, [PaWriteStream FirstPointer 512, Consume 0 512])"
proof -
  have h: "1 \<le> minInElements busyInfo" "minInElements busyInfo \<le> 2147483647"
    "0 \<le> streamAvailable late" "streamAvailable late \<le> 2147483647"
    by (simp_all add: busyInfo_def late_def)
  show ?thesis
    using sink_writes_clamped_frames [OF h, of "''AudioSink.work()''" 1024 sinkBlock] h
    by (simp add: AudioSink_work_def sinkBlock_def busyInfo_def late_def int32_def pa_codes)
qed

text \<open>
  The claim as first stated fails when \<open>minInElements\<close> does not fit an \<open>int\<close>: with
  2147483648 elements available and room for 512 frames, \<open>std::min<int>\<close> yields
  -2147483648, not 512.
\<close>

theorem sink_frames_wrap_counterexample:
  "AudioSink_work ''AudioSink::work()'' 1024 sinkBlock hugeInfo late =
     Inr (sinkBlock, [PaWriteStream FirstPointer (- 2147483648), Consume 0 (- 2147483648)])
   \<and> min (streamAvailable late) (int (minInElements hugeInfo)) = 512"
  by (simp add: AudioSink_work_def sinkBlock_def hugeInfo_def late_def int32_def pa_codes)

section \<open>The rate label over an activation\<close>











section \<open>The backoff setter and the loops\<close>

text \<open>
  C10 (as amended). \<open>setBackoffTime\<close> (and so \<open>setOverflowBackoff\<close> and
  \<open>setUnderflowBackoff\<close>, which share its body) checks no range: for every \<open>b\<close>,
  negative ones included, it returns. It stores a backoff of \<open>b\<close> milliseconds when that
  many ticks are within the clock's 64-bit tick count (beyond it the product wraps); and
  with such a negative \<open>b\<close> the next underflow or overflow moves the ready-time backwards,
  as long as the new ready-time is within the tick count too.
\<close>

theorem backoff_setter_takes_any_value:
  "\<exists>st1. setBackoffTime ticksPerMs b st = Inr st1
      \<and> backoffTime st1 = int64 (b * ticksPerMs) \<and> readyTime st1 = readyTime st
      \<and> (- 9223372036854775808 \<le> b * ticksPerMs \<and> b * ticksPerMs \<le> 9223372036854775807 \<longrightarrow>
           backoffTime st1 = b * ticksPerMs
         \<and> (0 < ticksPerMs \<and> b < 0
              \<and> - 9223372036854775808 \<le> readyTime st + b * ticksPerMs
              \<and> readyTime st \<le> 9223372036854775807 \<longrightarrow>
              (\<forall>who mf wi nv st2 es.
                  AudioSink_work who mf st1 wi nv = Inr (st2, es) \<and> written es \<noteq> []
                    \<and> ioResult nv = paOutputUnderflowed
                  \<longrightarrow> readyTime st2 = readyTime st + b * ticksPerMs \<and> readyTime st2 < readyTime st)
            \<and> (\<forall>W mf wi nv st2 es.
                  (W = AudioSource_work mf \<or> W = AudioSource_work_standalone)
                    \<and> W st1 wi nv = Inr (st2, es) \<and> fetched es \<noteq> []
                    \<and> ioResult nv = paInputOverflowed
                  \<longrightarrow> readyTime st2 = readyTime st + b * ticksPerMs \<and> readyTime st2 < readyTime st)))"
proof -
  let ?st1 = "st\<lparr>backoffTime := int64 (b * ticksPerMs)\<rparr>"
  let ?fits = "- 9223372036854775808 \<le> b * ticksPerMs \<and> b * ticksPerMs \<le> 9223372036854775807"
  let ?rewinds = "0 < ticksPerMs \<and> b < 0 \<and> - 9223372036854775808 \<le> readyTime st + b * ticksPerMs
      \<and> readyTime st \<le> 9223372036854775807"
  have stored: "int64 (b * ticksPerMs) = b * ticksPerMs" if ?fits
    using that by (intro int64_id) auto
  have neg: "b * ticksPerMs < 0" if ?rewinds
    using that by (simp add: mult_neg_pos)
  have sum: "int64 (readyTime st + b * ticksPerMs) = readyTime st + b * ticksPerMs" if ?rewinds
    using that neg [OF that] by (intro int64_id) auto
  have sink_back: "readyTime st2 = readyTime st + b * ticksPerMs \<and> readyTime st2 < readyTime st"
    if f: ?fits and bk: ?rewinds
      and h: "AudioSink_work who mf ?st1 wi nv = Inr (st2, es) \<and> written es \<noteq> []
         \<and> ioResult nv = paOutputUnderflowed" for who mf wi nv st2 es
  proof -
    from h have w: "AudioSink_work who mf ?st1 wi nv = Inr (st2, es)" "written es \<noteq> []"
      "ioResult nv = paOutputUnderflowed" by simp_all
    have "readyTime st2 = int64 (readyTime ?st1 + backoffTime ?st1)"
      by (rule sink_underflow [OF w])
    also have "\<dots> = int64 (readyTime st + b * ticksPerMs)"
      using stored [OF f] by simp
    also have "\<dots> = readyTime st + b * ticksPerMs"
      by (rule sum [OF bk])
    finally have e: "readyTime st2 = readyTime st + b * ticksPerMs" .
    with neg [OF bk] show ?thesis by simp
  qed
  have src_back: "readyTime st2 = readyTime st + b * ticksPerMs \<and> readyTime st2 < readyTime st"
    if f: ?fits and bk: ?rewinds
      and h: "(W = AudioSource_work mf \<or> W = AudioSource_work_standalone)
         \<and> W ?st1 wi nv = Inr (st2, es) \<and> fetched es \<noteq> []
         \<and> ioResult nv = paInputOverflowed" for W mf wi nv st2 es
  proof -
    from h have w: "W = AudioSource_work mf \<or> W = AudioSource_work_standalone"
      "W ?st1 wi nv = Inr (st2, es)" "fetched es \<noteq> []" "ioResult nv = paInputOverflowed"
      by simp_all
    have "readyTime st2 = int64 (readyTime ?st1 + backoffTime ?st1)"
      by (rule source_overflow [OF w])
    also have "\<dots> = int64 (readyTime st + b * ticksPerMs)"
      using stored [OF f] by simp
    also have "\<dots> = readyTime st + b * ticksPerMs"
      by (rule sum [OF bk])
    finally have e: "readyTime st2 = readyTime st + b * ticksPerMs" .
    with neg [OF bk] show ?thesis by simp
  qed
  have set: "setBackoffTime ticksPerMs b st = Inr ?st1"
    by (simp add: setBackoffTime_def)
  show ?thesis
  proof (rule exI [of _ ?st1], intro conjI)
    show "setBackoffTime ticksPerMs b st = Inr ?st1" by (rule set)
    show "backoffTime ?st1 = int64 (b * ticksPerMs)" by simp
    show "readyTime ?st1 = readyTime st" by simp
    show "?fits \<longrightarrow>
        backoffTime ?st1 = b * ticksPerMs
      \<and> (?rewinds \<longrightarrow>
          (\<forall>who mf wi nv st2 es.
              AudioSink_work who mf ?st1 wi nv = Inr (st2, es) \<and> written es \<noteq> []
                \<and> ioResult nv = paOutputUnderflowed
              \<longrightarrow> readyTime st2 = readyTime st + b * ticksPerMs \<and> readyTime st2 < readyTime st)
        \<and> (\<forall>W mf wi nv st2 es.
              (W = AudioSource_work mf \<or> W = AudioSource_work_standalone)
                \<and> W ?st1 wi nv = Inr (st2, es) \<and> fetched es \<noteq> []
                \<and> ioResult nv = paInputOverflowed
              \<longrightarrow> readyTime st2 = readyTime st + b * ticksPerMs \<and> readyTime st2 < readyTime st))"
    proof (intro impI conjI)
      assume f: ?fits
      show "backoffTime ?st1 = b * ticksPerMs" using stored [OF f] by simp
      assume bk: ?rewinds
      show "\<forall>who mf wi nv st2 es.
              AudioSink_work who mf ?st1 wi nv = Inr (st2, es) \<and> written es \<noteq> []
                \<and> ioResult nv = paOutputUnderflowed
              \<longrightarrow> readyTime st2 = readyTime st + b * ticksPerMs \<and> readyTime st2 < readyTime st"
        by (intro allI impI) (rule sink_back [OF f bk])
      show "\<forall>W mf wi nv st2 es.
              (W = AudioSource_work mf \<or> W = AudioSource_work_standalone)
                \<and> W ?st1 wi nv = Inr (st2, es) \<and> fetched es \<noteq> []
                \<and> ioResult nv = paInputOverflowed
              \<longrightarrow> readyTime st2 = readyTime st + b * ticksPerMs \<and> readyTime st2 < readyTime st"
        by (intro allI impI) (rule src_back [OF f bk])
    qed
  qed
qed

theorem backoff_setter_takes_any_value_witness:
  "- 9223372036854775808 \<le> (- 5) * (1000000 :: int) \<and> (- 5) * (1000000 :: int) \<le> 9223372036854775807
   \<and> - 9223372036854775808 \<le> readyTime sinkBlock + (- 5) * 1000000
   \<and> readyTime sinkBlock \<le> 9223372036854775807
   \<and> setBackoffTime 1000000 (- 5) sinkBlock = Inr (sinkBlock\<lparr>backoffTime := - 5000000\<rparr>)
   \<and> AudioSink_work ''AudioSink::work()'' 1024 (sinkBlock\<lparr>backoffTime := - 5000000\<rparr>) busyInfo underrun
       = Inr (sinkBlock\<lparr>backoffTime := - 5000000, readyTime := - 4999900\<rparr>,
              [PaWriteStream FirstPointer 1024, StdErr ''aU'', Consume 0 1024])
   \<and> readyTime sinkBlock = 100"
proof -
  from backoff_setter_takes_any_value [of 1000000 "- 5" sinkBlock]
  obtain st1 where s: "setBackoffTime 1000000 (- 5) sinkBlock = Inr st1"
    and v: "backoffTime st1 = int64 (- 5 * 1000000)" and r: "readyTime st1 = readyTime sinkBlock"
    by blast
  have w: "AudioSink_work ''AudioSink::work()'' 1024 (sinkBlock\<lparr>backoffTime := - 5000000\<rparr>) busyInfo underrun
       = Inr (sinkBlock\<lparr>backoffTime := - 5000000, readyTime := - 4999900\<rparr>,
              [PaWriteStream FirstPointer 1024, StdErr ''aU'', Consume 0 1024])"
    by (simp add: AudioSink_work_def sinkBlock_def busyInfo_def underrun_def int32_def int64_def
        pa_codes)
  have t: "readyTime sinkBlock = 100" by (simp add: sinkBlock_def)
  from s have "st1 = sinkBlock\<lparr>backoffTime := - 5000000\<rparr>"
    by (simp add: setBackoffTime_def int64_def)
  with s w t show ?thesis by simp
qed

text \<open>
  The claim as first stated fails on the largest \<open>long\<close> with nanosecond ticks: what is
  stored is -1000000 ticks, a backoff of minus one millisecond.
\<close>

theorem backoff_setter_wraps_counterexample:
  "setBackoffTime 1000000 9223372036854775807 sinkBlock = Inr (sinkBlock\<lparr>backoffTime := - 1000000\<rparr>)
   \<and> 9223372036854775807 * (1000000 :: int) = 9223372036854775807000000"
  by (simp add: setBackoffTime_def int64_def)

section \<open>Properties of device resolution\<close>

lemma host_simps:
  "initialized host = paNoError" "devices host = [mic, speaker]" "hostApiName host i = ''ALSA''"
  "defaultInputDevice host = 0" "defaultOutputDevice host = 1" "sampleSize host = tableSize"
  "formatSupported host = paNoError" "opened host = paNoError" "hostFormat host f = f"
  "versionText host = ''PortAudio V19.6.0''"
  by (simp_all add: host_def)

lemma host_count: "Pa_GetDeviceCount host = 2"
  by (simp add: Pa_GetDeviceCount_def host_simps)

lemma host_info: "Pa_GetDeviceInfo host 1 = Some speaker" "Pa_GetDeviceInfo host 0 = Some mic"
  by (simp_all add: Pa_GetDeviceInfo_def host_count) (simp_all add: host_simps)

text \<open>
  The parameter block is the same before and after the open, so the comparison in
  \<open>AudioBlock::setupStream\<close> is of a value with itself.
\<close>

lemma tryAndOpen_ok:
  assumes "formatSupported pa = paNoError" and "opened pa = paNoError"
  shows "tryAndOpen pa sampRate st =
    (Inr (st\<lparr>stream := True\<rparr>),
     [IsFormatSupported None (Some (streamParams st)) sampRate,
      OpenStream (if isSink st then None else Some (streamParams st))
        (if isSink st then Some (streamParams st) else None) sampRate])"
  using assms by (simp add: tryAndOpen_def Let_def)

lemma legacySource_built:
  "AudioBlock_new host memory ''AudioSource'' False Float32 2 ''PORTPERCHAN'' = Inr legacySource"
  by (simp add: AudioBlock_new_def host_simps memory_def legacySource_def requestedFormat_def
      paFloat32_def paNonInterleaved_def int32_def)

text \<open>
  C2. An empty device name should resolve to the default input device for a source and
  to the default output device for a sink. \<open>AudioBlock::setupDevice\<close> and the standalone
  constructors do so; the older \<open>AudioBlock::setupStream(deviceName, sampRate)\<close> passes
  \<open>Pa_GetDefaultOutputDevice()\<close> whatever the direction, so a source built on it opens
  the default output device (1 here) instead of the default input device (0).
\<close>

theorem older_setup_gives_source_the_output_default:
  "AudioBlock_new host memory ''AudioSource'' False Float32 2 ''PORTPERCHAN'' = Inr legacySource
   \<and> isSink legacySource = False
   \<and> defaultInputDevice host = 0 \<and> defaultOutputDevice host = 1
   \<and> resolved (fst (setupStream_named host [] 44100 legacySource)) = Some 1"
  by (simp add: legacySource_built setupStream_named_def getDeviceMatch_def host_info host_simps
      tryAndOpen_ok resolved_def Let_def)
    (simp add: legacySource_def)

lemma getDeviceMatch_numeric:
  assumes "deviceName \<noteq> []" and "list_all isdigit deviceName"
  shows "getDeviceMatch pa who deviceName d =
    (if 2147483647 < decimal deviceName then Inl (StdOutOfRange ''stoi'')
     else if Pa_GetDeviceCount pa \<le> int (decimal deviceName)
     then Inl (RangeException (who @ ''('' @ deviceName @ '')'') ''Device index out of range'')
     else Inr (int (decimal deviceName)))"
  using assms by (simp add: getDeviceMatch_def stoi_def)

lemma setupDevice_numeric:
  assumes "deviceName \<noteq> []" and "list_all isdigit deviceName"
  shows "setupDevice pa deviceName st =
    (if 2147483647 < decimal deviceName then Inl (StdOutOfRange ''stoi'', st)
     else if Pa_GetDeviceCount pa \<le> int (decimal deviceName)
     then Inl (RangeException (''AudioBlock::setupDevice('' @ deviceName @ '')'')
                 ''Device index out of range'',
               st\<lparr>streamParams := (streamParams st)\<lparr>device := int (decimal deviceName)\<rparr>\<rparr>)
     else Inr (st\<lparr>streamParams := (streamParams st)\<lparr>device := int (decimal deviceName)\<rparr>\<rparr>))"
  using assms by (simp add: setupDevice_def stoi_def Let_def)

lemma decimal_examples:
  "decimal ''1'' = 1" "decimal ''007'' = 7" "decimal ''2147483648'' = 2147483648"
  by (simp_all add: decimal_def)

text \<open>
  C5 (as amended). For a non-empty name made of digits only, with decimal value \<open>N\<close>:
  when \<open>N\<close> fits an \<open>int\<close>, resolution fails with the range exception if \<open>N\<close> is at
  least the number of devices and selects device \<open>N\<close> if it is less; when \<open>N\<close> does not
  fit an \<open>int\<close>, \<open>std::stoi\<close> throws \<open>std::out_of_range\<close> before any comparison.
\<close>

theorem numeric_name_selects_or_fails:
  assumes "deviceName \<noteq> []" and "list_all isdigit deviceName"
  shows "(decimal deviceName \<le> 2147483647 \<and> Pa_GetDeviceCount pa \<le> int (decimal deviceName) \<longrightarrow>
            (\<exists>src. getDeviceMatch pa who deviceName d
                     = Inl (RangeException src ''Device index out of range''))
          \<and> (\<exists>src st'. setupDevice pa deviceName st
                     = Inl (RangeException src ''Device index out of range'', st')))
       \<and> (decimal deviceName \<le> 2147483647 \<and> int (decimal deviceName) < Pa_GetDeviceCount pa \<longrightarrow>
            getDeviceMatch pa who deviceName d = Inr (int (decimal deviceName))
          \<and> (\<exists>st'. setupDevice pa deviceName st = Inr st'
                     \<and> device (streamParams st') = int (decimal deviceName)))
       \<and> (2147483647 < decimal deviceName \<longrightarrow>
            getDeviceMatch pa who deviceName d = Inl (StdOutOfRange ''stoi'')
          \<and> setupDevice pa deviceName st = Inl (StdOutOfRange ''stoi'', st))"
  by (simp add: getDeviceMatch_numeric [OF assms] setupDevice_numeric [OF assms])

theorem numeric_name_selects_or_fails_witness:
  "list_all isdigit ''1'' \<and> list_all isdigit ''007'' \<and> list_all isdigit ''2147483648''
   \<and> getDeviceMatch host ''AudioSink'' ''1'' 0 = Inr 1
   \<and> (\<exists>src. getDeviceMatch host ''AudioSink'' ''007'' 0
              = Inl (RangeException src ''Device index out of range''))
   \<and> (\<exists>st'. setupDevice host ''1'' legacySource = Inr st' \<and> device (streamParams st') = 1)
   \<and> setupDevice host ''2147483648'' legacySource = Inl (StdOutOfRange ''stoi'', legacySource)"
proof -
  have d: "list_all isdigit ''1''" "list_all isdigit ''007''" "list_all isdigit ''2147483648''"
    by (simp_all add: isdigit_def)
  have n: "''1'' \<noteq> []" "''007'' \<noteq> []" "''2147483648'' \<noteq> []"
    by simp_all
  show ?thesis
    using numeric_name_selects_or_fails [OF n(1) d(1), of host "''AudioSink''" 0 legacySource]
      numeric_name_selects_or_fails [OF n(2) d(2), of host "''AudioSink''" 0 legacySource]
      numeric_name_selects_or_fails [OF n(3) d(3), of host "''AudioSink''" 0 legacySource]
      d
    by (simp add: decimal_examples host_count)
qed

text \<open>
  The claim as first stated fails on the name "2147483648" with two devices: the index
  is not below the device count, and what is thrown is \<open>std::out_of_range\<close>, not the
  range exception.
\<close>

theorem oversized_index_counterexample:
  "''2147483648'' \<noteq> [] \<and> list_all isdigit ''2147483648''
   \<and> decimal ''2147483648'' = 2147483648 \<and> Pa_GetDeviceCount host = 2
   \<and> getDeviceMatch host ''AudioSink'' ''2147483648'' 1 = Inl (StdOutOfRange ''stoi'')
   \<and> setupDevice host ''2147483648'' legacySource = Inl (StdOutOfRange ''stoi'', legacySource)"
  by (simp add: getDeviceMatch_def setupDevice_def isdigit_def stoi_def decimal_examples host_count)

section \<open>Properties of the stream setup\<close>

lemma setupStream_unfold:
  assumes "Pa_GetDeviceInfo pa (device (streamParams st)) = Some info"
  shows "setupStream pa sampRate st =
     (fst (tryAndOpen pa sampRate
        (st\<lparr>streamParams := (streamParams st)
           \<lparr>suggestedLatency := (if isSink st then outputLatency info else inputLatency info)\<rparr>\<rparr>)),
      Information (name info) (hostApiName pa (hostApi info))
        # snd (tryAndOpen pa sampRate
            (st\<lparr>streamParams := (streamParams st)
               \<lparr>suggestedLatency := (if isSink st then outputLatency info else inputLatency info)\<rparr>\<rparr>)))"
  by (simp add: setupStream_def assms Let_def split: prod.splits)

lemma setupStream_named_unfold:
  assumes "getDeviceMatch pa ''AudioBlock'' deviceName (defaultOutputDevice pa) = Inr deviceIndex"
    and "Pa_GetDeviceInfo pa deviceIndex = Some info"
  shows "setupStream_named pa deviceName sampRate st =
     (fst (tryAndOpen pa sampRate
        (st\<lparr>streamParams := (streamParams st)
           \<lparr>device := deviceIndex, suggestedLatency := outputLatency info\<rparr>\<rparr>)),
      Information (name info) (hostApiName pa (hostApi info))
        # snd (tryAndOpen pa sampRate
            (st\<lparr>streamParams := (streamParams st)
               \<lparr>device := deviceIndex, suggestedLatency := outputLatency info\<rparr>\<rparr>)))"
  by (simp add: setupStream_named_def assms Let_def split: prod.splits)

text \<open>What the backend runs the stream in is no input of any setup.\<close>

lemma count_unread: "Pa_GetDeviceCount (pa\<lparr>hostFormat := h\<rparr>) = Pa_GetDeviceCount pa"
  by (simp add: Pa_GetDeviceCount_def)

lemma info_unread: "Pa_GetDeviceInfo (pa\<lparr>hostFormat := h\<rparr>) i = Pa_GetDeviceInfo pa i"
  by (simp add: Pa_GetDeviceInfo_def count_unread)

lemma match_unread:
  "getDeviceMatch (pa\<lparr>hostFormat := h\<rparr>) who deviceName d = getDeviceMatch pa who deviceName d"
  by (simp add: getDeviceMatch_def count_unread cong: option.case_cong)

lemma tryAndOpen_unread:
  "tryAndOpen (pa\<lparr>hostFormat := h\<rparr>) sampRate st = tryAndOpen pa sampRate st"
  by (simp add: tryAndOpen_def Let_def)

lemma standalone_unread:
  "AudioSink_standalone (pa\<lparr>hostFormat := h\<rparr>) raw deviceName sampRate dtype numChans chanMode
     = AudioSink_standalone pa raw deviceName sampRate dtype numChans chanMode"
  "AudioSource_standalone (pa\<lparr>hostFormat := h\<rparr>) raw deviceName sampRate dtype numChans chanMode
     = AudioSource_standalone pa raw deviceName sampRate dtype numChans chanMode"
  by (simp_all add: AudioSink_standalone_def AudioSource_standalone_def match_unread info_unread
      Let_def cong: option.case_cong sum.case_cong if_cong)

lemma setupStream_unread:
  "setupStream (pa\<lparr>hostFormat := h\<rparr>) sampRate st = setupStream pa sampRate st"
  "setupStream_named (pa\<lparr>hostFormat := h\<rparr>) deviceName sampRate st
     = setupStream_named pa deviceName sampRate st"
  by (simp_all add: setupStream_def setupStream_named_def match_unread info_unread
      tryAndOpen_unread Let_def cong: option.case_cong sum.case_cong if_cong)

text \<open>
  The standalone constructors, once the library is initialised, the device is resolved
  and known, the format is supported and the stream has opened.
\<close>

lemma sink_standalone_check:
  assumes "initialized pa = paNoError" and "formatSupported pa = paNoError"
    and "opened pa = paNoError" and "dtype_size dtype \<le> 2147483647"
    and "getDeviceMatch pa ''AudioSink'' deviceName (defaultOutputDevice pa) = Inr i"
    and "Pa_GetDeviceInfo pa i = Some info"
  shows "fst (AudioSink_standalone pa raw deviceName sampRate dtype numChans chanMode) =
    (if sampleSize pa (requestedFormat (sampleFormat (streamParams raw)) dtype (chanMode = ''INTERLEAVED''))
          \<noteq> int (dtype_size dtype)
     then Inl (Exception ''AudioSink()'' ''Pa_GetSampleSize mismatch'')
     else Inr (setupPorts numChans
            \<lparr>blockName = ''AudioSink'', isSink = True, stream = True,
             streamParams = \<lparr>device = i, channelCount = int32 (int numChans),
               sampleFormat = requestedFormat (sampleFormat (streamParams raw)) dtype
                                (chanMode = ''INTERLEAVED''),
               suggestedLatency = outputLatency info\<rparr>,
             interleaved = (chanMode = ''INTERLEAVED''), sendLabel = False,
             reportLogger = False, reportStderror = True,
             backoffTime = backoffTime raw, readyTime = 0, ports = []\<rparr>))"
proof -
  have w: "int32 (int (dtype_size dtype)) = int (dtype_size dtype)"
    using assms(4) by (intro int32_id) auto
  show ?thesis
    by (simp add: AudioSink_standalone_def assms(1-3,5,6) Let_def w)
qed

lemma source_standalone_check:
  assumes "initialized pa = paNoError" and "formatSupported pa = paNoError"
    and "opened pa = paNoError" and "dtype_size dtype \<le> 2147483647"
    and "getDeviceMatch pa ''AudioSource'' deviceName (defaultInputDevice pa) = Inr i"
    and "Pa_GetDeviceInfo pa i = Some info"
  shows "fst (AudioSource_standalone pa raw deviceName sampRate dtype numChans chanMode) =
    (if sampleSize pa (requestedFormat (sampleFormat (streamParams raw)) dtype (chanMode = ''INTERLEAVED''))
          \<noteq> int (dtype_size dtype)
     then Inl (Exception ''AudioSource()'' ''Pa_GetSampleSize mismatch'')
     else Inr (setupPorts numChans
            \<lparr>blockName = ''AudioSource'', isSink = False, stream = True,
             streamParams = \<lparr>device = i, channelCount = int32 (int numChans),
               sampleFormat = requestedFormat (sampleFormat (streamParams raw)) dtype
                                (chanMode = ''INTERLEAVED''),
               suggestedLatency = inputLatency info\<rparr>,
             interleaved = (chanMode = ''INTERLEAVED''), sendLabel = False,
             reportLogger = False, reportStderror = True,
             backoffTime = backoffTime raw, readyTime = 0, ports = []\<rparr>))"
proof -
  have w: "int32 (int (dtype_size dtype)) = int (dtype_size dtype)"
    using assms(4) by (intro int32_id) auto
  show ?thesis
    by (simp add: AudioSource_standalone_def assms(1-3,5,6) Let_def w)
qed

lemma host_like:
  "initialized converting = paNoError" "devices converting = [mic, speaker]"
  "hostApiName converting i = ''ALSA''"
  "defaultInputDevice converting = 0" "defaultOutputDevice converting = 1"
  "sampleSize converting = tableSize"
  "formatSupported converting = paNoError" "opened converting = paNoError"
  "hostFormat converting f = paInt16"
  by (simp_all add: converting_def host_def)

lemma host_resolves_empty:
  "getDeviceMatch host ''AudioSink'' [] (defaultOutputDevice host) = Inr 1"
  by (simp add: getDeviceMatch_def host_simps)

lemma floatSink_built:
  "fst (AudioSink_standalone host memory [] 44100 Float32 2 ''INTERLEAVED'') = Inr floatSink"
  by (simp add: sink_standalone_check [OF host_simps(1,7,8) _ host_resolves_empty host_info(1)]
      host_simps requestedFormat_def paFloat32_def tableSize_def setupPorts_def floatSink_def
      memory_def int32_def speaker_def outputLatency_def)

text \<open>
  C3 (as amended). Once the stream has opened, the standalone constructors compare the
  sample size \<open>Pa_GetSampleSize\<close> reports for the sample format they requested with the
  byte width of the requested element type (one that fits an \<open>int\<close>), and throw
  "Pa_GetSampleSize mismatch" exactly when the two differ; so they refuse an element type
  that has no sample format of its width. What the backend runs the stream in is not
  read: a construction comes out the same whatever that format is, so a format the
  backend substitutes does not abort it.
\<close>

theorem sample_size_checked_after_open:
  assumes "initialized pa = paNoError" and "formatSupported pa = paNoError"
    and "opened pa = paNoError" and "dtype_size dtype \<le> 2147483647"
  shows "(getDeviceMatch pa ''AudioSink'' deviceName (defaultOutputDevice pa) = Inr i
          \<and> Pa_GetDeviceInfo pa i = Some info \<longrightarrow>
            (fst (AudioSink_standalone pa raw deviceName sampRate dtype numChans chanMode)
               = Inl (Exception ''AudioSink()'' ''Pa_GetSampleSize mismatch'')
             \<longleftrightarrow> sampleSize pa (requestedFormat (sampleFormat (streamParams raw)) dtype
                               (chanMode = ''INTERLEAVED''))
                   \<noteq> int (dtype_size dtype))
          \<and> (sampleSize pa (requestedFormat (sampleFormat (streamParams raw)) dtype
                               (chanMode = ''INTERLEAVED''))
                = int (dtype_size dtype) \<longrightarrow>
               (\<exists>built. fst (AudioSink_standalone pa raw deviceName sampRate dtype numChans chanMode)
                          = Inr built)))
       \<and> (getDeviceMatch pa ''AudioSource'' deviceName (defaultInputDevice pa) = Inr i
          \<and> Pa_GetDeviceInfo pa i = Some info \<longrightarrow>
            (fst (AudioSource_standalone pa raw deviceName sampRate dtype numChans chanMode)
               = Inl (Exception ''AudioSource()'' ''Pa_GetSampleSize mismatch'')
             \<longleftrightarrow> sampleSize pa (requestedFormat (sampleFormat (streamParams raw)) dtype
                               (chanMode = ''INTERLEAVED''))
                   \<noteq> int (dtype_size dtype))
          \<and> (sampleSize pa (requestedFormat (sampleFormat (streamParams raw)) dtype
                               (chanMode = ''INTERLEAVED''))
                = int (dtype_size dtype) \<longrightarrow>
               (\<exists>built. fst (AudioSource_standalone pa raw deviceName sampRate dtype numChans chanMode)
                          = Inr built)))
       \<and> AudioSink_standalone (pa\<lparr>hostFormat := h\<rparr>) raw deviceName sampRate dtype numChans chanMode
           = AudioSink_standalone pa raw deviceName sampRate dtype numChans chanMode
       \<and> AudioSource_standalone (pa\<lparr>hostFormat := h\<rparr>) raw deviceName sampRate dtype numChans chanMode
           = AudioSource_standalone pa raw deviceName sampRate dtype numChans chanMode"
proof (intro conjI impI)
  assume r: "getDeviceMatch pa ''AudioSink'' deviceName (defaultOutputDevice pa) = Inr i
      \<and> Pa_GetDeviceInfo pa i = Some info"
  note c = sink_standalone_check [OF assms, of deviceName i info raw sampRate numChans chanMode]
  from r c show "fst (AudioSink_standalone pa raw deviceName sampRate dtype numChans chanMode)
               = Inl (Exception ''AudioSink()'' ''Pa_GetSampleSize mismatch'')
             \<longleftrightarrow> sampleSize pa (requestedFormat (sampleFormat (streamParams raw)) dtype
                               (chanMode = ''INTERLEAVED''))
                   \<noteq> int (dtype_size dtype)"
    by simp
  assume "sampleSize pa (requestedFormat (sampleFormat (streamParams raw)) dtype
                               (chanMode = ''INTERLEAVED''))
                = int (dtype_size dtype)"
  with r c show "\<exists>built. fst (AudioSink_standalone pa raw deviceName sampRate dtype numChans chanMode)
      = Inr built"
    by simp
next
  assume r: "getDeviceMatch pa ''AudioSource'' deviceName (defaultInputDevice pa) = Inr i
      \<and> Pa_GetDeviceInfo pa i = Some info"
  note c = source_standalone_check [OF assms, of deviceName i info raw sampRate numChans chanMode]
  from r c show "fst (AudioSource_standalone pa raw deviceName sampRate dtype numChans chanMode)
               = Inl (Exception ''AudioSource()'' ''Pa_GetSampleSize mismatch'')
             \<longleftrightarrow> sampleSize pa (requestedFormat (sampleFormat (streamParams raw)) dtype
                               (chanMode = ''INTERLEAVED''))
                   \<noteq> int (dtype_size dtype)"
    by simp
  assume "sampleSize pa (requestedFormat (sampleFormat (streamParams raw)) dtype
                               (chanMode = ''INTERLEAVED''))
                = int (dtype_size dtype)"
  with r c show "\<exists>built. fst (AudioSource_standalone pa raw deviceName sampRate dtype numChans chanMode)
      = Inr built"
    by simp
qed (simp_all add: standalone_unread)

text \<open>
  On PortAudio's table: a float64 sink, built where a float32 flag was left, opens and is
  refused (4 bytes against 8); a float32 sink is built.
\<close>

theorem sample_size_checked_after_open_witness:
  "initialized host = paNoError \<and> formatSupported host = paNoError \<and> opened host = paNoError
   \<and> dtype_size (OtherType 8) \<le> 2147483647 \<and> dtype_size Float32 \<le> 2147483647
   \<and> getDeviceMatch host ''AudioSink'' [] (defaultOutputDevice host) = Inr 1
   \<and> Pa_GetDeviceInfo host 1 = Some speaker
   \<and> sampleSize host (requestedFormat (sampleFormat (streamParams staleMemory)) (OtherType 8) True) = 4
   \<and> int (dtype_size (OtherType 8)) = 8
   \<and> fst (AudioSink_standalone host staleMemory [] 44100 (OtherType 8) 2 ''INTERLEAVED'')
        = Inl (Exception ''AudioSink()'' ''Pa_GetSampleSize mismatch'')
   \<and> sampleSize host (requestedFormat (sampleFormat (streamParams memory)) Float32 True) = 4
   \<and> int (dtype_size Float32) = 4
   \<and> fst (AudioSink_standalone host memory [] 44100 Float32 2 ''INTERLEAVED'') = Inr floatSink"
proof -
  have s: "dtype_size (OtherType 8) \<le> 2147483647" "dtype_size Float32 \<le> 2147483647"
    by simp_all
  have z: "sampleSize host (requestedFormat (sampleFormat (streamParams staleMemory)) (OtherType 8) True) = 4"
    "sampleSize host (requestedFormat (sampleFormat (streamParams memory)) Float32 True) = 4"
    by (simp_all add: host_simps requestedFormat_def staleMemory_def memory_def tableSize_def
        paFloat32_def)
  show ?thesis
    using sample_size_checked_after_open [OF host_simps(1,7,8) s(1),
        of "[]" 1 speaker staleMemory 44100 2 "''INTERLEAVED''"]
      host_resolves_empty host_info(1) z floatSink_built
    by (simp add: host_simps)
qed

text \<open>
  The claim as first stated fails on a backend that runs the stream in 16-bit integers
  when 32-bit floats were requested: the float32 sink is built all the same.
\<close>

theorem substituted_format_counterexample:
  "opened converting = paNoError
   \<and> hostFormat converting (requestedFormat (sampleFormat (streamParams memory)) Float32 True) = paInt16
   \<and> sampleSize converting paInt16 = 2 \<and> int (dtype_size Float32) = 4
   \<and> fst (AudioSink_standalone converting memory [] 44100 Float32 2 ''INTERLEAVED'') = Inr floatSink"
proof -
  have "AudioSink_standalone converting memory [] 44100 Float32 2 ''INTERLEAVED''
      = AudioSink_standalone host memory [] 44100 Float32 2 ''INTERLEAVED''"
    unfolding converting_def by (rule standalone_unread)
  then show ?thesis
    by (simp add: floatSink_built host_like tableSize_def paInt16_def)
qed

text \<open>
  \<open>AudioBlock::setupStream\<close>, in both versions, compares the sample size after the open
  with the one it read before it, not with the element type's width: once the stream has
  opened it returns. A float64 sink built where a float32 flag was left is set up without
  an exception, where the standalone constructor refuses it.
\<close>

lemma setupStream_opens:
  assumes "Pa_GetDeviceInfo pa (device (streamParams st)) = Some info"
    and "formatSupported pa = paNoError" and "opened pa = paNoError"
  shows "fst (setupStream pa sampRate st) =
     Inr (st\<lparr>streamParams := (streamParams st)
            \<lparr>suggestedLatency := (if isSink st then outputLatency info else inputLatency info)\<rparr>,
          stream := True\<rparr>)"
  by (simp add: setupStream_unfold [OF assms(1)] tryAndOpen_ok [OF assms(2,3)])

lemma setup_never_mismatch:
  "fst (tryAndOpen pa sampRate st) \<noteq> Inl (Exception src ''Pa_GetSampleSize mismatch'', st')"
  "fst (setupStream pa sampRate st) \<noteq> Inl (Exception src ''Pa_GetSampleSize mismatch'', st')"
  by (auto simp: setupStream_def tryAndOpen_def Let_def split: option.splits prod.splits if_splits)

lemma float64_sink_is_set_up:
  "\<exists>st0 st1 st2. AudioSink_new host staleMemory (OtherType 8) 2 ''INTERLEAVED'' = Inr st0
      \<and> setupDevice host [] st0 = Inr st1
      \<and> fst (setupStream host 44100 st1) = Inr st2
      \<and> sampleSize host (sampleFormat (streamParams st2)) = 4"
  by (simp add: AudioSink_new_def AudioBlock_new_def setupPorts_def setupDevice_def host_simps
      host_info setupStream_opens requestedFormat_def staleMemory_def memory_def tableSize_def)

text \<open>
  C4. The suggested latency handed to \<open>Pa_OpenStream\<close> should be the mean of the
  device's low and high default latencies of the stream's own direction.
  \<open>AudioBlock::setupStream(sampRate)\<close> and the standalone constructors compute it so; the
  older \<open>AudioBlock::setupStream(deviceName, sampRate)\<close> takes the output latencies
  whatever the direction, so a source built on it and opened on "Mic" suggests 6 (the
  mean of the output latencies 5 and 7) instead of 2 (the mean of the input latencies 1
  and 3).
\<close>

theorem older_setup_gives_source_the_output_latency:
  "isSink legacySource = False
   \<and> latencies (snd (setupStream_named host ''Mic'' 44100 legacySource)) = [6]
   \<and> resolved (fst (setupStream_named host ''Mic'' 44100 legacySource)) = Some 0
   \<and> Pa_GetDeviceInfo host 0 = Some mic
   \<and> inputLatency mic = 2 \<and> outputLatency mic = 6"
  by (simp add: setupStream_named_def getDeviceMatch_def isdigit_def host_info host_simps
      tryAndOpen_ok mic_def outputLatency_def inputLatency_def Let_def resolved_def)
    (simp add: legacySource_def)

section \<open>Properties of the device enumeration\<close>

text \<open>
  C8. The enumeration should return a document with every device's name, host API name,
  channel maxima and default sample rate, and with the library's version string. The YAML
  version does; the JSON version builds that document in \<open>topObject\<close> and then returns
  \<open>devicesArray.dump()\<close>, the array of devices alone, so the version string is missing
  from what it returns.
\<close>

theorem json_enumeration_drops_version:
  "devices host = [mic, speaker] \<and> versionText host = ''PortAudio V19.6.0''
   \<and> enumerateAudioDevices_json host = Arr [infoObject host mic, infoObject host speaker]
   \<and> versionText host \<notin> set (strings (enumerateAudioDevices_json host))
   \<and> versionText host \<in> set (strings (enumerateAudioDevices_yaml host))"
  by (simp add: enumerateAudioDevices_json_def enumerateAudioDevices_yaml_def devicesArray_def
      host_simps infoObject_def mic_def speaker_def)


section \<open>The paths that resolve, suggest and enumerate by the rule\<close>

text \<open>
  The later \<open>AudioBlock::setupDevice\<close> and the standalone constructors resolve the
  empty name by direction.
\<close>

lemma setupDevice_empty:
  "setupDevice pa [] st =
     Inr (st\<lparr>streamParams := (streamParams st)
            \<lparr>device := (if isSink st then defaultOutputDevice pa else defaultInputDevice pa)\<rparr>\<rparr>)"
  by (simp add: setupDevice_def)

lemma standalone_empty:
  "fst (AudioSink_standalone pa raw [] sampRate dtype numChans chanMode) = Inr built
     \<Longrightarrow> isSink built \<and> device (streamParams built) = defaultOutputDevice pa"
  "fst (AudioSource_standalone pa raw [] sampRate dtype numChans chanMode) = Inr built
     \<Longrightarrow> \<not> isSink built \<and> device (streamParams built) = defaultInputDevice pa"
  by (auto simp: AudioSink_standalone_def AudioSource_standalone_def getDeviceMatch_def Let_def
      setupPorts_def split: if_splits option.splits)

text \<open>
  The later \<open>AudioBlock::setupStream\<close> and the standalone constructors suggest the
  latency of the stream's own direction.
\<close>

lemma tryAndOpen_latencies:
  "set (latencies (snd (tryAndOpen pa sampRate st))) \<subseteq> {suggestedLatency (streamParams st)}"
  by (auto simp: tryAndOpen_def Let_def)

lemma setupStream_latency:
  assumes "Pa_GetDeviceInfo pa (device (streamParams st)) = Some info"
  shows "set (latencies (snd (setupStream pa sampRate st)))
           \<subseteq> {if isSink st then outputLatency info else inputLatency info}"
  using tryAndOpen_latencies [of pa sampRate
      "st\<lparr>streamParams := (streamParams st)
         \<lparr>suggestedLatency := (if isSink st then outputLatency info else inputLatency info)\<rparr>\<rparr>"]
  by (simp add: setupStream_unfold [OF assms])

lemma standalone_latency:
  "fst (AudioSink_standalone pa raw deviceName sampRate dtype numChans chanMode) = Inr built
     \<Longrightarrow> \<exists>info. Pa_GetDeviceInfo pa (device (streamParams built)) = Some info
           \<and> latencies (snd (AudioSink_standalone pa raw deviceName sampRate dtype numChans chanMode))
               = [outputLatency info]"
  "fst (AudioSource_standalone pa raw deviceName sampRate dtype numChans chanMode) = Inr built
     \<Longrightarrow> \<exists>info. Pa_GetDeviceInfo pa (device (streamParams built)) = Some info
           \<and> latencies (snd (AudioSource_standalone pa raw deviceName sampRate dtype numChans chanMode))
               = [inputLatency info]"
  by (auto simp: AudioSink_standalone_def AudioSource_standalone_def Let_def
      setupPorts_def split: if_splits option.splits sum.splits)

text \<open>The YAML version returns every device's five fields and the version string.\<close>

lemma yaml_enumeration:
  assumes "devices pa \<noteq> []"
  shows "enumerateAudioDevices_yaml pa =
     Obj [(''PortAudio Device'', Arr (map (infoObject pa) (devices pa))),
          (''PortAudio Version'', Str (versionText pa))]"
  using assms by (simp add: enumerateAudioDevices_yaml_def devicesArray_def)

text \<open>A name that is neither empty nor numeric and names no device is not found.\<close>

lemma nameScan_None: "nameScan ds deviceName i = None \<longleftrightarrow> deviceName \<notin> name ` set ds"
  by (induction ds arbitrary: i) auto

lemma nameScan_Some:
  "nameScan ds deviceName i = Some j \<Longrightarrow>
     i \<le> j \<and> j < i + int (length ds) \<and> name (ds ! nat (j - i)) = deviceName"
proof (induction ds arbitrary: i)
  case Nil
  then show ?case by simp
next
  case (Cons d ds)
  show ?case
  proof (cases "name d = deviceName")
    case True
    with Cons.prems show ?thesis by simp
  next
    case False
    with Cons.prems have "nameScan ds deviceName (i + 1) = Some j" by simp
    from Cons.IH [OF this] have "i + 1 \<le> j" "j < i + 1 + int (length ds)"
      "name (ds ! nat (j - (i + 1))) = deviceName" by simp_all
    moreover from \<open>i + 1 \<le> j\<close> have "nat (j - i) = Suc (nat (j - (i + 1)))" by simp
    ultimately show ?thesis by simp
  qed
qed

lemma unknown_name_not_found:
  assumes "deviceName \<noteq> []" and "\<not> list_all isdigit deviceName"
    and "deviceName \<notin> name ` set (devices pa)"
  shows "getDeviceMatch pa who deviceName d
           = Inl (NotFoundException (who @ ''('' @ deviceName @ '')'') ''No matching device'')"
    and "setupDevice pa deviceName st
           = Inl (NotFoundException (''AudioBlock::setupDevice('' @ deviceName @ '')'')
                    ''No matching device'', st)"
  using assms nameScan_None [of "devices pa" deviceName 0]
  by (simp_all add: getDeviceMatch_def setupDevice_def)


text \<open>The ports a constructor sets up are distinct.\<close>

lemma constructed_ports_distinct:
  "AudioSink_new pa raw dtype numChans chanMode = Inr st \<Longrightarrow> distinct (ports st)"
  "AudioSource_new pa raw dtype numChans chanMode = Inr st \<Longrightarrow> distinct (ports st)"
  "fst (AudioSink_standalone pa raw deviceName sampRate dtype numChans chanMode) = Inr st
     \<Longrightarrow> distinct (ports st)"
  "fst (AudioSource_standalone pa raw deviceName sampRate dtype numChans chanMode) = Inr st
     \<Longrightarrow> distinct (ports st)"
  by (auto simp: AudioSink_new_def AudioSource_new_def AudioBlock_new_def AudioSink_standalone_def
      AudioSource_standalone_def setupPorts_def Let_def split: if_splits sum.splits option.splits)

text \<open>
  On PortAudio's own table each of the five element types has a format of its width.
\<close>

lemma tableSize_requested:
  "dtype \<in> {Float32, Int32, Int16, Int8, UInt8}
     \<Longrightarrow> tableSize (requestedFormat found dtype il) = int (dtype_size dtype)"
  by (cases il)
    (auto simp: requestedFormat_def tableSize_def paFloat32_def paInt32_def paInt16_def
      paInt8_def paUInt8_def paNonInterleaved_def)

end
